theory Spec2Isabelle
  imports Complex_Main
begin

section \<open>The control core of konrad's radiative-convective equilibrium model\<close>

text \<open>
  This theory embeds \<^verbatim>\<open>konrad/core.py\<close> (class \<^verbatim>\<open>RCE\<close>) in HOL.

  \<^item> A Python float is the real number it stands for; infinities and NaN are outside the
    model. The arithmetic of the write cadence (\<^verbatim>\<open>check_if_write\<close>) is that of IEEE 754
    doubles, with every result rounded; the arithmetic on profiles and on the elapsed time
    is exact. Python's unbounded integers are \<^typ>\<open>int\<close>.
  \<^item> The fields of the atmosphere are arrays of shape \<^verbatim>\<open>(1, nlev)\<close>; a profile is the one
    row of such an array, a list of reals.
  \<^item> An exception is a value: a function that can raise returns \<open>Inl (e, s)\<close>, the exception
    \<open>e\<close> with the state \<open>s\<close> the object was left in, or \<open>Inr\<close> its regular result.
  \<^item> The submodels are collaborators that the core only invokes. A submodel object is a value
    of a type parameter (its internal state); its methods are the fields of a record of
    functions (\<open>submodels\<close>), each returning the result together with the updated object.
  \<^item> Logging is not modelled.
\<close>

subsection \<open>Data\<close>

type_synonym profile = "real list"

record atmosphere =
  plev :: profile
  phlev :: profile
  T :: profile
  z :: profile
  H2O :: profile
  deltaT :: profile

record surface =
  temperature :: real
  pressure :: real
  density :: real
  depth :: real
  heat_capacity :: real

record heatingrates =
  lw_flxu :: profile
  lw_flxd :: profile
  sw_flxu :: profile
  sw_flxd :: profile
  net_htngrt :: profile

datatype error = TypeError | ZeroDivisionError | IndexError | AttributeError | ConfigurationError

text \<open>The dynamic type of the value given as \<^verbatim>\<open>writeevery\<close>: an \<^verbatim>\<open>int\<close>, a \<^verbatim>\<open>float\<close>,
  or anything else.\<close>

datatype pyval = PyInt int | PyFloat real | PyOther

text \<open>An object handed to the constructor for a submodel role either is an instance of the
  role's class (and then carries the submodel's state) or is some other object.\<close>

datatype 'a supplied = Conforming 'a | Nonconforming

text \<open>The data handed to the output target: the atmosphere merged with the heating rates and
  the surface.\<close>

type_synonym snapshot = "atmosphere \<times> heatingrates option \<times> surface"

text \<open>The operations invoked on the output target: \<^verbatim>\<open>create_outfile\<close> writes the merged data
  with the attributes \<^verbatim>\<open>experiment\<close> and, when the radiation object has one,
  \<^verbatim>\<open>solar_constant\<close> (the creation date is read from the clock and is left out);
  \<^verbatim>\<open>append_to_netcdf\<close> appends the merged data at a timestamp in hours.\<close>

datatype out_op =
    Create_outfile snapshot string "real option"
  | Append_to_netcdf snapshot real

record ('r, 'h, 'k, 'c, 'l, 'u) RCE =
  atmosphere :: atmosphere
  radiation :: "'r supplied"
  humidity :: 'h
  surface :: surface
  cloud :: 'k
  convection :: 'c
  lapse :: 'l
  upwelling :: 'u
  delta :: real
  timestep :: real
  writeevery :: pyval
  max_iterations :: int
  heatingrates :: "heatingrates option"
  converged :: bool
  niter :: int
  outfile :: "string option"
  experiment_label :: string
  output_target :: "out_op list"

text \<open>The field \<open>output_target\<close> is not an attribute of the Python object: it is the sequence
  of operations the controller has invoked on the file named by \<open>outfile\<close>, oldest first.\<close>

type_synonym 'a result = "(error \<times> 'a) + 'a"

subsection \<open>The methods of the submodels\<close>

text \<open>
  Radiation: \<^verbatim>\<open>adjust_solar_angle(time_days)\<close>, \<^verbatim>\<open>get_heatingrates(atmosphere, surface, cloud)\<close>
  and the optional attribute \<^verbatim>\<open>solar_constant\<close>. Surface:
  \<^verbatim>\<open>adjust(sw_down, sw_up, lw_down, lw_up, timestep)\<close>. LapseRate: \<^verbatim>\<open>get(atmosphere)\<close>.
  Convection: \<^verbatim>\<open>stabilize(atmosphere, lapse, timestep, surface)\<close>, which mutates atmosphere
  and surface. Upwelling: \<^verbatim>\<open>cool(atmosphere, radheat, timestep)\<close>, which mutates the
  atmosphere. Humidity: \<^verbatim>\<open>get(atmosphere, surface, net_heatingrate)\<close>.
\<close>

record ('r, 'h, 'k, 'c, 'l, 'u) submodels =
  adjust_solar_angle :: "'r \<Rightarrow> real \<Rightarrow> 'r"
  get_heatingrates :: "'r \<Rightarrow> atmosphere \<Rightarrow> surface \<Rightarrow> 'k \<Rightarrow> heatingrates \<times> 'r"
  solar_constant :: "'r \<Rightarrow> real option"
  adjust :: "surface \<Rightarrow> real \<Rightarrow> real \<Rightarrow> real \<Rightarrow> real \<Rightarrow> real \<Rightarrow> surface"
  lapse_get :: "'l \<Rightarrow> atmosphere \<Rightarrow> profile \<times> 'l"
  stabilize :: "'c \<Rightarrow> atmosphere \<Rightarrow> profile \<Rightarrow> real \<Rightarrow> surface \<Rightarrow> 'c \<times> atmosphere \<times> surface"
  cool :: "'u \<Rightarrow> atmosphere \<Rightarrow> profile \<Rightarrow> real \<Rightarrow> 'u \<times> atmosphere"
  calculate_height :: "atmosphere \<Rightarrow> profile"
  humidity_get :: "'h \<Rightarrow> atmosphere \<Rightarrow> surface \<Rightarrow> profile \<Rightarrow> profile \<times> 'h"

text \<open>Modelled from the spec: \<^verbatim>\<open>Atmosphere.calculate_height\<close> is a method of the atmosphere
  class, which is not part of the sources at hand; the spec describes it as the operation that
  recomputes the derived height field. The field \<open>calculate_height\<close> of \<open>submodels\<close> returns
  the new height profile, and the loop stores it in \<open>z\<close>.\<close>

subsection \<open>Float arithmetic\<close>

text \<open>
  A Python float is an IEEE 754 double: a sign, 53 significant bits and a binary exponent from
  \<open>- 1022\<close> to \<open>1023\<close>, with gradual underflow. An operation computes the exact result and
  rounds it to the nearest double, a tie going to the even significand. A result too large
  for a double is outside the model.

  \<open>binade fuel x\<close> is the exponent \<open>e\<close> with \<open>2 ^ e \<le> x < 2 ^ (e + 1)\<close> of a positive \<open>x\<close>, found
  by halving or doubling at most \<open>fuel\<close> times; \<open>ulp x\<close> is the distance between the doubles
  around \<open>x\<close>.
\<close>

definition pow2 :: "int \<Rightarrow> real" where
  "pow2 k = (if 0 \<le> k then 2 ^ nat k else 1 / 2 ^ nat (- k))"

fun binade :: "nat \<Rightarrow> real \<Rightarrow> int" where
  "binade 0 x = 0"
| "binade (Suc fuel) x =
     (if 2 \<le> x then binade fuel (x / 2) + 1
      else if x < 1 then binade fuel (x * 2) - 1
      else 0)"

definition float_exponent :: "real \<Rightarrow> int" where
  "float_exponent x = (if \<bar>x\<bar> < pow2 (- 1022) then - 1022 else binade 1100 \<bar>x\<bar>)"

definition ulp :: "real \<Rightarrow> real" where
  "ulp x = pow2 (float_exponent x - 52)"

definition round_half_even :: "real \<Rightarrow> int" where
  "round_half_even q =
     (if q - of_int \<lfloor>q\<rfloor> < 1 / 2 then \<lfloor>q\<rfloor>
      else if 1 / 2 < q - of_int \<lfloor>q\<rfloor> then \<lfloor>q\<rfloor> + 1
      else if even \<lfloor>q\<rfloor> then \<lfloor>q\<rfloor> else \<lfloor>q\<rfloor> + 1)"

definition round_double :: "real \<Rightarrow> real" where
  "round_double x = of_int (round_half_even (x / ulp x)) * ulp x"

text \<open>The conversion of an \<^verbatim>\<open>int\<close> to a float, and \<^verbatim>\<open>+\<close> and \<^verbatim>\<open>*\<close> on floats.\<close>

definition int_to_float :: "int \<Rightarrow> real" where
  "int_to_float n = round_double (of_int n)"

definition float_add :: "real \<Rightarrow> real \<Rightarrow> real" where
  "float_add a b = round_double (a + b)"

definition float_mul :: "real \<Rightarrow> real \<Rightarrow> real" where
  "float_mul a b = round_double (a * b)"

text \<open>C's \<^verbatim>\<open>fmod\<close>: the remainder of the quotient truncated towards zero; it is a double
  whenever its arguments are, so nothing is rounded.\<close>

definition fmod :: "real \<Rightarrow> real \<Rightarrow> real" where
  "fmod x y = x - y * of_int (if 0 \<le> x / y then \<lfloor>x / y\<rfloor> else \<lceil>x / y\<rceil>)"

text \<open>Python's \<^verbatim>\<open>%\<close> on floats (\<^verbatim>\<open>float_rem\<close> of CPython): \<^verbatim>\<open>fmod\<close>, and when the remainder
  is not zero and its sign is not that of the divisor, the divisor added to it. The caller
  checks for a zero divisor.\<close>

definition float_mod :: "real \<Rightarrow> real \<Rightarrow> real" where
  "float_mod x y =
     (let m = fmod x y
      in if m \<noteq> 0 then (if (y < 0) \<noteq> (m < 0) then float_add m y else m) else 0)"

subsection \<open>Elapsed time, convergence, write cadence\<close>

definition get_hours_passed :: "('r, 'h, 'k, 'c, 'l, 'u) RCE \<Rightarrow> real" where
  "get_hours_passed s = of_int (niter s) * 24 * timestep s"

text \<open>\<^verbatim>\<open>np.all(np.abs(self.atmosphere['deltaT']) < self.delta)\<close>\<close>

definition is_converged :: "('r, 'h, 'k, 'c, 'l, 'u) RCE \<Rightarrow> bool" where
  "is_converged s = list_all (\<lambda>x. \<bar>x\<bar> < delta s) (deltaT (atmosphere s))"

text \<open>\<^verbatim>\<open>check_if_write\<close> reads \<^verbatim>\<open>outfile\<close>, \<^verbatim>\<open>writeevery\<close>, \<^verbatim>\<open>niter\<close> and
  \<^verbatim>\<open>timestep\<close>. Both \<^verbatim>\<open>%\<close> raise \<^verbatim>\<open>ZeroDivisionError\<close> on a zero divisor; on integers
  Python's \<^verbatim>\<open>%\<close> is the floored remainder, as \<open>mod\<close> on \<^typ>\<open>int\<close>. In the float branch
  \<^verbatim>\<open>niter\<close> is converted to a float, \<^verbatim>\<open>niter + 0.5\<close> and the product with \<^verbatim>\<open>timestep\<close> are
  rounded, and the comparison is exact. There \<^verbatim>\<open>timestep\<close> and \<^verbatim>\<open>writeevery\<close> are the values
  of doubles (an \<^verbatim>\<open>int\<close> given as \<^verbatim>\<open>timestep\<close>, as the default 1, is one that a double holds
  exactly).\<close>

definition check_if_write :: "('r, 'h, 'k, 'c, 'l, 'u) RCE \<Rightarrow> error + bool" where
  "check_if_write s =
     (if outfile s = None then Inr False
      else case writeevery s of
        PyInt w \<Rightarrow>
          if w = 0 then Inl ZeroDivisionError else Inr (niter s mod w = 0)
      | PyFloat w \<Rightarrow>
          if w = 0 then Inl ZeroDivisionError
          else Inr (float_mod
                      (float_mul (float_add (int_to_float (niter s)) (1 / 2)) (timestep s)) w
                    < timestep s)
      | PyOther \<Rightarrow> Inl TypeError)"

subsection \<open>Writing output\<close>

text \<open>\<^verbatim>\<open>create_outfile\<close> and \<^verbatim>\<open>append_to_netcdf\<close> merge atmosphere, heating rates and surface
  and hand the result to the output target.\<close>

definition create_outfile ::
  "('r, 'h, 'k, 'c, 'l, 'u) submodels \<Rightarrow> ('r, 'h, 'k, 'c, 'l, 'u) RCE \<Rightarrow> ('r, 'h, 'k, 'c, 'l, 'u) RCE" where
  "create_outfile M s =
     s\<lparr>output_target := output_target s @
        [Create_outfile (atmosphere s, heatingrates s, surface s) (experiment_label s)
           (case radiation s of Conforming r \<Rightarrow> solar_constant M r | Nonconforming \<Rightarrow> None)]\<rparr>"

definition append_to_netcdf :: "('r, 'h, 'k, 'c, 'l, 'u) RCE \<Rightarrow> ('r, 'h, 'k, 'c, 'l, 'u) RCE" where
  "append_to_netcdf s =
     s\<lparr>output_target := output_target s @
        [Append_to_netcdf (atmosphere s, heatingrates s, surface s) (get_hours_passed s)]\<rparr>"

text \<open>Lines 264 to 271 of \<^verbatim>\<open>run\<close>: an exception of \<^verbatim>\<open>check_if_write\<close> leaves the loop.\<close>

definition write_output ::
  "('r, 'h, 'k, 'c, 'l, 'u) submodels \<Rightarrow> ('r, 'h, 'k, 'c, 'l, 'u) RCE
     \<Rightarrow> ('r, 'h, 'k, 'c, 'l, 'u) RCE result" where
  "write_output M s =
     (case check_if_write s of
        Inl e \<Rightarrow> Inl (e, s)
      | Inr w \<Rightarrow>
          Inr (if w then (if niter s = 0 then create_outfile M s else append_to_netcdf s)
               else s))"

subsection \<open>One pass through the body of the loop\<close>

text \<open>
  Lines 209 to 271 of \<^verbatim>\<open>run\<close>, in the order of the source. An object given as radiation
  that is not a radiation model has none of its methods, so the first call raises
  \<^verbatim>\<open>AttributeError\<close>. \<^verbatim>\<open>.values[0, 0]\<close> on a flux without levels raises
  \<^verbatim>\<open>IndexError\<close>. The sum and the difference of two profiles go level by level.
\<close>

definition iteration ::
  "('r, 'h, 'k, 'c, 'l, 'u) submodels \<Rightarrow> ('r, 'h, 'k, 'c, 'l, 'u) RCE
     \<Rightarrow> ('r, 'h, 'k, 'c, 'l, 'u) RCE result" where
  "iteration M s =
     (case radiation s of
        Nonconforming \<Rightarrow> Inl (AttributeError, s)
      | Conforming r \<Rightarrow>
          let (hr, r') = get_heatingrates M (adjust_solar_angle M r (get_hours_passed s / 24))
                           (atmosphere s) (surface s) (cloud s);
              s1 = s\<lparr>radiation := Conforming r', heatingrates := Some hr\<rparr>
          in if sw_flxd hr = [] \<or> sw_flxu hr = [] \<or> lw_flxd hr = [] \<or> lw_flxu hr = []
             then Inl (IndexError, s1)
             else
               let sfc = adjust M (surface s1) (hd (sw_flxd hr)) (hd (sw_flxu hr))
                           (hd (lw_flxd hr)) (hd (lw_flxu hr)) (timestep s1);
                   T_previous = T (atmosphere s1);
                   (lapse_crit, l') = lapse_get M (lapse s1) (atmosphere s1);
                   atm = (atmosphere s1)
                     \<lparr>T := map2 (\<lambda>t h. t + h * timestep s1) (T (atmosphere s1)) (net_htngrt hr)\<rparr>;
                   (c', atm, sfc) = stabilize M (convection s1) atm lapse_crit (timestep s1) sfc;
                   (u', atm) = cool M (upwelling s1) atm (net_htngrt hr) (timestep s1);
                   atm = atm\<lparr>z := calculate_height M atm\<rparr>;
                   (h2o, h') = humidity_get M (humidity s1) atm sfc (net_htngrt hr);
                   atm = atm\<lparr>H2O := h2o\<rparr>;
                   atm = atm\<lparr>deltaT := map2 (-) (T atm) T_previous\<rparr>
               in write_output M
                    (s1\<lparr>atmosphere := atm, surface := sfc, lapse := l', convection := c',
                        upwelling := u', humidity := h'\<rparr>))"

subsection \<open>The loop\<close>

text \<open>
  \<^verbatim>\<open>while self.niter < self.max_iterations: ... if self.is_converged(): break
  else: self.niter += 1\<close>. The loop ends: the body leaves \<^verbatim>\<open>niter\<close> and
  \<^verbatim>\<open>max_iterations\<close> alone, and every pass that does not leave the loop adds one to
  \<^verbatim>\<open>niter\<close>.
\<close>

function run_loop ::
  "('r, 'h, 'k, 'c, 'l, 'u) submodels \<Rightarrow> ('r, 'h, 'k, 'c, 'l, 'u) RCE
     \<Rightarrow> ('r, 'h, 'k, 'c, 'l, 'u) RCE result" where
  "run_loop M s =
     (if niter s < max_iterations s then
        (case iteration M s of
           Inl e \<Rightarrow> Inl e
         | Inr s' \<Rightarrow>
             if is_converged s' then Inr s'
             else run_loop M (s'\<lparr>niter := niter s' + 1\<rparr>))
      else Inr s)"
  by pat_completeness auto
termination
  apply (relation "measure (\<lambda>(M, s). nat (max_iterations s - niter s))")
   apply simp
  apply (auto simp: iteration_def write_output_def create_outfile_def append_to_netcdf_def Let_def
        split: supplied.splits prod.splits if_splits sum.splits)
  done

declare run_loop.simps [simp del]

text \<open>\<^verbatim>\<open>run\<close>: line 197 sets the surface pressure (\<^verbatim>\<open>phlev[0]\<close> raises \<^verbatim>\<open>IndexError\<close> when
  there is no half level), then the loop runs.\<close>

definition set_surface_pressure ::
  "('r, 'h, 'k, 'c, 'l, 'u) RCE \<Rightarrow> ('r, 'h, 'k, 'c, 'l, 'u) RCE result" where
  "set_surface_pressure s =
     (case phlev (atmosphere s) of
        [] \<Rightarrow> Inl (IndexError, s)
      | p # _ \<Rightarrow> Inr (s\<lparr>surface := (surface s)\<lparr>pressure := p\<rparr>\<rparr>))"

definition run ::
  "('r, 'h, 'k, 'c, 'l, 'u) submodels \<Rightarrow> ('r, 'h, 'k, 'c, 'l, 'u) RCE
     \<Rightarrow> ('r, 'h, 'k, 'c, 'l, 'u) RCE result" where
  "run M s = (case set_surface_pressure s of Inl e \<Rightarrow> Inl e | Inr s0 \<Rightarrow> run_loop M s0)"

text \<open>The state \<^verbatim>\<open>self\<close> is in when a call has returned or raised.\<close>

definition state_after :: "'a result \<Rightarrow> 'a" where
  "state_after r = (case r of Inl (e, s) \<Rightarrow> s | Inr s \<Rightarrow> s)"

subsection \<open>The constructor\<close>

text \<open>The arguments of \<^verbatim>\<open>RCE.__init__\<close>. A submodel argument is \<open>None\<close> when it is left
  out.\<close>

record ('r, 'h, 'k, 'c, 'l, 'u) init_args =
  arg_atmosphere :: atmosphere
  arg_radiation :: "'r supplied option"
  arg_humidity :: "'h supplied option"
  arg_surface :: "surface supplied option"
  arg_cloud :: "'k supplied option"
  arg_convection :: "'c supplied option"
  arg_lapse :: "'l supplied option"
  arg_upwelling :: "'u supplied option"
  arg_outfile :: "string option"
  arg_experiment :: string
  arg_timestep :: real
  arg_delta :: real
  arg_writeevery :: pyval
  arg_max_iterations :: int

text \<open>The defaults of the signature: \<^verbatim>\<open>outfile=None, experiment='', timestep=1, delta=0.01,
  writeevery=1, max_iterations=5000\<close>, and every submodel left out.\<close>

definition default_args :: "atmosphere \<Rightarrow> ('r, 'h, 'k, 'c, 'l, 'u) init_args" where
  "default_args atm =
     \<lparr>arg_atmosphere = atm, arg_radiation = None, arg_humidity = None, arg_surface = None,
      arg_cloud = None, arg_convection = None, arg_lapse = None, arg_upwelling = None,
      arg_outfile = None, arg_experiment = [], arg_timestep = 1, arg_delta = 0.01,
      arg_writeevery = PyInt 1, arg_max_iterations = 5000\<rparr>"

text \<open>The default implementations are classes of other modules; the objects their
  constructors return are parameters of the model.\<close>

record ('r, 'h, 'k, 'c, 'l, 'u) default_submodels =
  RRTMG :: 'r
  FixedRH :: 'h
  SurfaceHeatCapacity :: surface
  ClearSky :: 'k
  HardAdjustment :: 'c
  MoistLapseRate :: 'l
  NoUpwelling :: 'u

text \<open>Modelled from the spec: \<^verbatim>\<open>utils.return_if_type(variable, variablename, expect,
  default)\<close> is defined in a module that is not part of the sources at hand. The spec describes
  it as the resolution that validates a provided collaborator against its required interface,
  substitutes the documented default when it is absent, and fails with
  \<^verbatim>\<open>ConfigurationError\<close> on a mismatch. The class \<^verbatim>\<open>expect\<close> is what \<open>Conforming\<close> stands
  for.\<close>

definition return_if_type :: "'a supplied option \<Rightarrow> string \<Rightarrow> 'a \<Rightarrow> error + 'a" where
  "return_if_type variable variablename dflt =
     (case variable of
        None \<Rightarrow> Inr dflt
      | Some (Conforming x) \<Rightarrow> Inr x
      | Some Nonconforming \<Rightarrow> Inl ConfigurationError)"

text \<open>\<^verbatim>\<open>RCE.__init__\<close>: the radiation argument is taken as it is (lines 69 to 72), the other
  six go through \<^verbatim>\<open>return_if_type\<close> in the order of the source; the first exception leaves
  the constructor.\<close>

definition RCE_init ::
  "('r, 'h, 'k, 'c, 'l, 'u) default_submodels \<Rightarrow> ('r, 'h, 'k, 'c, 'l, 'u) init_args
     \<Rightarrow> error + ('r, 'h, 'k, 'c, 'l, 'u) RCE" where
  "RCE_init D a =
     (let rad = (case arg_radiation a of None \<Rightarrow> Conforming (RRTMG D) | Some r \<Rightarrow> r) in
      case return_if_type (arg_humidity a) ''humidity'' (FixedRH D) of
        Inl e \<Rightarrow> Inl e
      | Inr hum \<Rightarrow>
      case return_if_type (arg_surface a) ''surface'' (SurfaceHeatCapacity D) of
        Inl e \<Rightarrow> Inl e
      | Inr sfc \<Rightarrow>
      case return_if_type (arg_cloud a) ''cloud'' (ClearSky D) of
        Inl e \<Rightarrow> Inl e
      | Inr cld \<Rightarrow>
      case return_if_type (arg_convection a) ''convection'' (HardAdjustment D) of
        Inl e \<Rightarrow> Inl e
      | Inr conv \<Rightarrow>
      case return_if_type (arg_lapse a) ''lapse'' (MoistLapseRate D) of
        Inl e \<Rightarrow> Inl e
      | Inr lps \<Rightarrow>
      case return_if_type (arg_upwelling a) ''upwelling'' (NoUpwelling D) of
        Inl e \<Rightarrow> Inl e
      | Inr upw \<Rightarrow>
        Inr \<lparr>atmosphere = arg_atmosphere a, radiation = rad, humidity = hum, surface = sfc,
             cloud = cld, convection = conv, lapse = lps, upwelling = upw,
             delta = arg_delta a, timestep = arg_timestep a, writeevery = arg_writeevery a,
             max_iterations = arg_max_iterations a, heatingrates = None, converged = False,
             niter = 0, outfile = arg_outfile a, experiment_label = arg_experiment a,
             output_target = []\<rparr>)"

subsection \<open>The shape of the output\<close>

text \<open>The shape of what a controller that starts at \<^verbatim>\<open>niter == 0\<close> does to its output
  target: nothing, or one creation followed by appends only.\<close>

fun is_create :: "out_op \<Rightarrow> bool" where
  "is_create (Create_outfile snap label sc) = True"
| "is_create (Append_to_netcdf snap hours) = False"

definition created_before_appended :: "out_op list \<Rightarrow> bool" where
  "created_before_appended ops =
     (case ops of [] \<Rightarrow> True | x # rest \<Rightarrow> is_create x \<and> list_all (\<lambda>y. \<not> is_create y) rest)"

subsection \<open>Test doubles\<close>

text \<open>Submodels for concrete runs. The radiation double heats every level of the atmosphere
  at the same rate \<open>q\<close> and returns zero surface fluxes; the surface keeps its state;
  convection, upwelling and humidity are no-ops; the height is left as it is.\<close>

definition uniform_heating ::
  "real \<Rightarrow> 'r \<Rightarrow> atmosphere \<Rightarrow> surface \<Rightarrow> 'k \<Rightarrow> heatingrates \<times> 'r" where
  "uniform_heating q r atm sfc cld =
     (\<lparr>lw_flxu = [0], lw_flxd = [0], sw_flxu = [0], sw_flxd = [0],
       net_htngrt = replicate (length (T atm)) q\<rparr>, r)"

definition noop_submodels :: "real \<Rightarrow> ('r, 'h, 'k, 'c, 'l, 'u) submodels" where
  "noop_submodels q =
     \<lparr>adjust_solar_angle = (\<lambda>r t. r),
      get_heatingrates = uniform_heating q,
      solar_constant = (\<lambda>r. None),
      adjust = (\<lambda>sfc sw_down sw_up lw_down lw_up ts. sfc),
      lapse_get = (\<lambda>l atm. (replicate (length (T atm)) 0, l)),
      stabilize = (\<lambda>c atm lapse_crit ts sfc. (c, atm, sfc)),
      cool = (\<lambda>u atm radheat ts. (u, atm)),
      calculate_height = (\<lambda>atm. z atm),
      humidity_get = (\<lambda>h atm sfc nh. (H2O atm, h))\<rparr>"

text \<open>A convection double that records the temperature profile and the lapse rate it is
  called with, and changes nothing.\<close>

definition observing_stabilize ::
  "(profile \<times> profile) list \<Rightarrow> atmosphere \<Rightarrow> profile \<Rightarrow> real \<Rightarrow> surface
     \<Rightarrow> (profile \<times> profile) list \<times> atmosphere \<times> surface" where
  "observing_stabilize c atm lapse_crit ts sfc = (c @ [(T atm, lapse_crit)], atm, sfc)"

definition test_atmosphere :: atmosphere where
  "test_atmosphere =
     \<lparr>plev = [90000, 50000], phlev = [100000, 70000, 30000], T = [300, 250], z = [1000, 5500],
      H2O = [0.01, 0.001], deltaT = [5, 5]\<rparr>"

definition test_surface :: surface where
  "test_surface =
     \<lparr>temperature = 288, pressure = 101325, density = 1025, depth = 50, heat_capacity = 4185.5\<rparr>"

definition test_defaults :: "(unit, unit, unit, (profile \<times> profile) list, unit, unit) default_submodels" where
  "test_defaults =
     \<lparr>RRTMG = (), FixedRH = (), SurfaceHeatCapacity = test_surface, ClearSky = (),
      HardAdjustment = [], MoistLapseRate = (), NoUpwelling = ()\<rparr>"

text \<open>The controller the constructor returns for \<open>test_atmosphere\<close> with every other
  argument left out.\<close>

definition test_rce :: "(unit, unit, unit, (profile \<times> profile) list, unit, unit) RCE" where
  "test_rce =
     \<lparr>atmosphere = test_atmosphere, radiation = Conforming (), humidity = (),
      surface = test_surface, cloud = (), convection = [], lapse = (), upwelling = (),
      delta = 0.01, timestep = 1, writeevery = PyInt 1, max_iterations = 5000,
      heatingrates = None, converged = False, niter = 0, outfile = None,
      experiment_label = [], output_target = []\<rparr>"

section \<open>Properties\<close>

subsection \<open>What a pass through the loop leaves alone\<close>

lemma iteration_frame:
  "niter (state_after (iteration M s)) = niter s
   \<and> max_iterations (state_after (iteration M s)) = max_iterations s
   \<and> outfile (state_after (iteration M s)) = outfile s
   \<and> writeevery (state_after (iteration M s)) = writeevery s
   \<and> timestep (state_after (iteration M s)) = timestep s
   \<and> delta (state_after (iteration M s)) = delta s
   \<and> converged (state_after (iteration M s)) = converged s"
  by (auto simp: iteration_def write_output_def create_outfile_def append_to_netcdf_def Let_def
      state_after_def split: supplied.splits prod.splits if_splits sum.splits)

lemma iteration_frame_Inr:
  assumes "iteration M s = Inr t"
  shows "niter t = niter s" "max_iterations t = max_iterations s" "outfile t = outfile s"
    "writeevery t = writeevery s" "timestep t = timestep s" "delta t = delta s"
    "converged t = converged s"
  using iteration_frame [of M s] assms by (simp_all add: state_after_def)

lemma iteration_frame_Inl:
  assumes "iteration M s = Inl (e, t)"
  shows "niter t = niter s" "max_iterations t = max_iterations s" "outfile t = outfile s"
    "writeevery t = writeevery s" "timestep t = timestep s" "delta t = delta s"
    "converged t = converged s"
  using iteration_frame [of M s] assms by (simp_all add: state_after_def)

subsection \<open>A proof rule for the loop\<close>

text \<open>If \<open>P\<close> holds when the loop is entered and every pass that goes on re-establishes it,
  then whatever the loop returns satisfies \<open>Q\<close>, provided each of the three ways out of the
  loop does: the \<^verbatim>\<open>break\<close>, an exception, and the failing loop condition.\<close>

lemma run_loop_rule:
  assumes entry: "P s"
    and step: "\<And>u t. \<lbrakk>P u; niter u < max_iterations u; iteration M u = Inr t; \<not> is_converged t\<rbrakk>
                 \<Longrightarrow> P (t\<lparr>niter := niter t + 1\<rparr>)"
    and break: "\<And>u t. \<lbrakk>P u; niter u < max_iterations u; iteration M u = Inr t; is_converged t\<rbrakk>
                 \<Longrightarrow> Q (Inr t)"
    and raise: "\<And>u e. \<lbrakk>P u; niter u < max_iterations u; iteration M u = Inl e\<rbrakk> \<Longrightarrow> Q (Inl e)"
    and exhausted: "\<And>u. \<lbrakk>P u; \<not> niter u < max_iterations u\<rbrakk> \<Longrightarrow> Q (Inr u)"
  shows "Q (run_loop M s)"
  using assms
proof (induction M s rule: run_loop.induct)
  case (1 M s)
  note entry = "1.prems"(1) and step = "1.prems"(2) and break = "1.prems"(3)
    and raise = "1.prems"(4) and exhausted = "1.prems"(5)
  show ?case
  proof (cases "niter s < max_iterations s")
    case False
    have "run_loop M s = Inr s"
      using False by (simp add: run_loop.simps [of M s])
    moreover have "Q (Inr s)"
      using entry False by (rule exhausted)
    ultimately show ?thesis by simp
  next
    case lt: True
    show ?thesis
    proof (cases "iteration M s")
      case (Inl e)
      have "run_loop M s = Inl e"
        using lt Inl by (simp add: run_loop.simps [of M s])
      moreover have "Q (Inl e)"
        using entry lt Inl by (rule raise)
      ultimately show ?thesis by simp
    next
      case (Inr t)
      show ?thesis
      proof (cases "is_converged t")
        case True
        have "run_loop M s = Inr t"
          using lt Inr True by (simp add: run_loop.simps [of M s])
        moreover have "Q (Inr t)"
          using entry lt Inr True by (rule break)
        ultimately show ?thesis by simp
      next
        case False
        have eq: "run_loop M s = run_loop M (t\<lparr>niter := niter t + 1\<rparr>)"
          using lt Inr False by (simp add: run_loop.simps [of M s])
        have "P (t\<lparr>niter := niter t + 1\<rparr>)"
          using entry lt Inr False by (rule step)
        then have "Q (run_loop M (t\<lparr>niter := niter t + 1\<rparr>))"
          using step break raise exhausted by (rule "1.IH" [OF lt Inr False])
        with eq show ?thesis by simp
      qed
    qed
  qed
qed

subsection \<open>The convergence predicate\<close>

text \<open>
  Claim C2. For every state of the controller, \<^verbatim>\<open>is_converged()\<close> is true if and only if the
  absolute value of every entry of the atmosphere's \<^verbatim>\<open>deltaT\<close> is strictly less than
  \<^verbatim>\<open>delta\<close>; one entry of magnitude at least \<^verbatim>\<open>delta\<close> makes it false.
\<close>

theorem is_converged_iff_all_below_delta:
  "(is_converged s \<longleftrightarrow>
      (\<forall>i < length (deltaT (atmosphere s)). \<bar>deltaT (atmosphere s) ! i\<bar> < delta s))
   \<and> (\<forall>i < length (deltaT (atmosphere s)).
        delta s \<le> \<bar>deltaT (atmosphere s) ! i\<bar> \<longrightarrow> \<not> is_converged s)"
proof -
  have iff: "is_converged s \<longleftrightarrow>
      (\<forall>i < length (deltaT (atmosphere s)). \<bar>deltaT (atmosphere s) ! i\<bar> < delta s)"
    by (simp add: is_converged_def list_all_length)
  moreover have "\<forall>i < length (deltaT (atmosphere s)).
        delta s \<le> \<bar>deltaT (atmosphere s) ! i\<bar> \<longrightarrow> \<not> is_converged s"
    using iff by (auto simp: not_less [symmetric])
  ultimately show ?thesis by blast
qed

theorem is_converged_iff_all_below_delta_witness:
  "is_converged (test_rce\<lparr>atmosphere := test_atmosphere\<lparr>deltaT := [0.001, -0.009]\<rparr>\<rparr>)
   \<and> is_converged (test_rce\<lparr>atmosphere := test_atmosphere\<lparr>deltaT := [0.001, -0.01]\<rparr>\<rparr>) = False"
proof -
  let ?a = "test_rce\<lparr>atmosphere := test_atmosphere\<lparr>deltaT := [0.001, -0.009]\<rparr>\<rparr>"
  let ?b = "test_rce\<lparr>atmosphere := test_atmosphere\<lparr>deltaT := [0.001, -0.01]\<rparr>\<rparr>"
  have "\<forall>i < length (deltaT (atmosphere ?a)). \<bar>deltaT (atmosphere ?a) ! i\<bar> < delta ?a"
    by (simp add: test_rce_def test_atmosphere_def less_Suc_eq)
  then have a: "is_converged ?a"
    using is_converged_iff_all_below_delta [of ?a] by blast
  have "(1::nat) < length (deltaT (atmosphere ?b))"
    and "delta ?b \<le> \<bar>deltaT (atmosphere ?b) ! 1\<bar>"
    by (simp_all add: test_rce_def test_atmosphere_def)
  then have "\<not> is_converged ?b"
    using is_converged_iff_all_below_delta [of ?b] by blast
  with a show ?thesis by simp
qed

subsection \<open>The write cadence\<close>

text \<open>Evaluating the float arithmetic on numerals.\<close>

lemma binade_numeral:
  "binade (numeral k) x =
     (if 2 \<le> x then binade (pred_numeral k) (x / 2) + 1
      else if x < 1 then binade (pred_numeral k) (x * 2) - 1
      else 0)"
  by (simp add: numeral_eq_Suc)

lemmas float_eval =
  float_mod_def fmod_def float_mul_def float_add_def int_to_float_def round_double_def ulp_def
  float_exponent_def pow2_def round_half_even_def binade_numeral Let_def

text \<open>
  Claim C4. When an output target is configured, \<^verbatim>\<open>check_if_write\<close> returns, for every
  \<^verbatim>\<open>niter\<close>: for an integer \<^verbatim>\<open>writeevery\<close>, exactly \<^verbatim>\<open>niter mod writeevery == 0\<close>; for a
  float \<^verbatim>\<open>writeevery\<close>, exactly \<^verbatim>\<open>((niter + 0.5) * timestep) mod writeevery < timestep\<close>.
  The operations are those of Python: on integers \<^verbatim>\<open>%\<close> is \<open>mod\<close>; on floats the sum and the
  product are rounded to doubles (\<open>float_add\<close>, \<open>float_mul\<close>) and \<^verbatim>\<open>%\<close> is \<open>float_mod\<close>. The
  remainder is defined for a cadence other than zero.
\<close>

theorem check_if_write_cadence:
  assumes "outfile s = Some f"
  shows "(writeevery s = PyInt w \<and> w \<noteq> 0 \<longrightarrow> check_if_write s = Inr (niter s mod w = 0))
    \<and> (writeevery s = PyFloat x \<and> x \<noteq> 0 \<longrightarrow>
          check_if_write s =
            Inr (float_mod
                   (float_mul (float_add (int_to_float (niter s)) (1 / 2)) (timestep s)) x
                 < timestep s))"
  using assms by (simp add: check_if_write_def)

text \<open>The witness: a cadence of 3 iterations at \<^verbatim>\<open>niter\<close> 6 and 7; a cadence of 2.5 days with
  a time step of one day at \<^verbatim>\<open>niter\<close> 2 and 3; and a cadence of 0.3 days with a time step of
  0.2 days at \<^verbatim>\<open>niter\<close> 40, both given as the doubles that Python reads \<^verbatim>\<open>0.3\<close> and \<^verbatim>\<open>0.2\<close>
  as: the product \<^verbatim>\<open>40.5 * 0.2\<close> is rounded down to the double below 8.1, whose remainder is
  just under 0.3, so nothing is written (without the rounding the remainder would be
  almost zero).\<close>

theorem check_if_write_cadence_witness:
  "check_if_write (test_rce\<lparr>outfile := Some ''out.nc'', writeevery := PyInt 3, niter := 6\<rparr>)
     = Inr True
   \<and> check_if_write (test_rce\<lparr>outfile := Some ''out.nc'', writeevery := PyInt 3, niter := 7\<rparr>)
     = Inr False
   \<and> check_if_write (test_rce\<lparr>outfile := Some ''out.nc'', writeevery := PyFloat 2.5, niter := 2\<rparr>)
     = Inr True
   \<and> check_if_write (test_rce\<lparr>outfile := Some ''out.nc'', writeevery := PyFloat 2.5, niter := 3\<rparr>)
     = Inr False
   \<and> check_if_write (test_rce\<lparr>outfile := Some ''out.nc'',
        timestep := 3602879701896397 / 18014398509481984,
        writeevery := PyFloat (5404319552844595 / 18014398509481984), niter := 40\<rparr>)
     = Inr False"
proof -
  let ?s = "\<lambda>w n. test_rce\<lparr>outfile := Some ''out.nc'', writeevery := w, niter := n\<rparr>"
  let ?d = "test_rce\<lparr>outfile := Some ''out.nc'',
        timestep := 3602879701896397 / 18014398509481984,
        writeevery := PyFloat (5404319552844595 / 18014398509481984), niter := 40\<rparr>"
  have "check_if_write (?s (PyInt 3) 6) = Inr True"
    using check_if_write_cadence [of "?s (PyInt 3) 6" "''out.nc''" 3] by simp
  moreover have "check_if_write (?s (PyInt 3) 7) = Inr False"
    using check_if_write_cadence [of "?s (PyInt 3) 7" "''out.nc''" 3] by simp
  moreover have "check_if_write (?s (PyFloat 2.5) 2) = Inr True"
    using check_if_write_cadence [of "?s (PyFloat 2.5) 2" "''out.nc''" _ "5 / 2"]
    by (simp add: test_rce_def float_eval)
  moreover have "check_if_write (?s (PyFloat 2.5) 3) = Inr False"
    using check_if_write_cadence [of "?s (PyFloat 2.5) 3" "''out.nc''" _ "5 / 2"]
    by (simp add: test_rce_def float_eval)
  moreover have "check_if_write ?d = Inr False"
    using check_if_write_cadence [of ?d "''out.nc''" _ "5404319552844595 / 18014398509481984"]
    by (simp add: float_eval)
  ultimately show ?thesis by simp
qed

subsection \<open>Evaluating concrete runs\<close>

lemmas run_eval =
  run_def set_surface_pressure_def iteration_def write_output_def check_if_write_def
  create_outfile_def append_to_netcdf_def get_hours_passed_def is_converged_def state_after_def
  noop_submodels_def uniform_heating_def observing_stabilize_def float_mod_def
  test_rce_def test_atmosphere_def test_surface_def Let_def

subsection \<open>Runs without an output target\<close>

lemma iteration_without_outfile:
  assumes "outfile s = None"
  shows "output_target (state_after (iteration M s)) = output_target s
    \<and> (\<forall>e t. iteration M s = Inl (e, t) \<longrightarrow> e = IndexError \<or> e = AttributeError)"
  using assms
  by (auto simp: iteration_def write_output_def check_if_write_def Let_def state_after_def
      split: supplied.splits prod.splits if_splits)

text \<open>
  Claim C9. If no output target is configured (\<^verbatim>\<open>outfile\<close> is \<^verbatim>\<open>None\<close>),
  \<^verbatim>\<open>check_if_write\<close> returns \<^verbatim>\<open>False\<close> for every \<^verbatim>\<open>niter\<close>, and \<^verbatim>\<open>run()\<close> performs no
  creation of and no append to the output; this holds for every value of \<^verbatim>\<open>writeevery\<close>,
  also one that is neither \<^verbatim>\<open>int\<close> nor \<^verbatim>\<open>float\<close>, and then no \<^verbatim>\<open>TypeError\<close> is raised
  either (the only exceptions left are those of the radiation calls).
\<close>

theorem no_outfile_no_output:
  assumes "outfile s = None"
  shows "check_if_write s = Inr False
    \<and> output_target (state_after (run M s)) = output_target s
    \<and> (\<forall>e t. run M s = Inl (e, t) \<longrightarrow> e = IndexError \<or> e = AttributeError)"
proof -
  let ?Q = "\<lambda>r. output_target (state_after r) = output_target s
    \<and> (\<forall>e t. r = Inl (e, t) \<longrightarrow> e = IndexError \<or> e = AttributeError)"
  have check: "check_if_write s = Inr False"
    using assms by (simp add: check_if_write_def)
  have "?Q (run M s)"
  proof (cases "set_surface_pressure s")
    case (Inl et)
    then show ?thesis
      by (auto simp: run_def set_surface_pressure_def state_after_def split: list.splits)
  next
    case (Inr s0)
    then have s0: "outfile s0 = None \<and> output_target s0 = output_target s"
      using assms by (auto simp: set_surface_pressure_def split: list.splits)
    have "?Q (run_loop M s0)"
    proof (rule run_loop_rule [where P = "\<lambda>u. outfile u = None \<and> output_target u = output_target s"])
      show "outfile s0 = None \<and> output_target s0 = output_target s" by (rule s0)
    next
      fix u t assume "outfile u = None \<and> output_target u = output_target s" "iteration M u = Inr t"
      then show "outfile (t\<lparr>niter := niter t + 1\<rparr>) = None
          \<and> output_target (t\<lparr>niter := niter t + 1\<rparr>) = output_target s"
        using iteration_without_outfile [of u M] iteration_frame_Inr(3) [of M u t]
        by (simp add: state_after_def)
    next
      fix u t assume "outfile u = None \<and> output_target u = output_target s" "iteration M u = Inr t"
      then show "?Q (Inr t)"
        using iteration_without_outfile [of u M] by (simp add: state_after_def)
    next
      fix u e assume "outfile u = None \<and> output_target u = output_target s" "iteration M u = Inl e"
      then show "?Q (Inl e)"
        using iteration_without_outfile [of u M] by (cases e) (simp add: state_after_def)
    next
      fix u assume "outfile u = None \<and> output_target u = output_target s"
      then show "?Q (Inr u)" by (simp add: state_after_def)
    qed
    with Inr show ?thesis by (simp add: run_def)
  qed
  with check show ?thesis by blast
qed

theorem no_outfile_no_output_witness:
  "outfile (test_rce\<lparr>writeevery := PyOther, max_iterations := 2\<rparr>) = None
   \<and> check_if_write (test_rce\<lparr>writeevery := PyOther, max_iterations := 2\<rparr>) = Inr False
   \<and> output_target (state_after (run (noop_submodels 1)
        (test_rce\<lparr>writeevery := PyOther, max_iterations := 2\<rparr>))) = []
   \<and> niter (state_after (run (noop_submodels 1)
        (test_rce\<lparr>writeevery := PyOther, max_iterations := 2\<rparr>))) = 2"
proof -
  let ?s = "test_rce\<lparr>writeevery := PyOther, max_iterations := 2\<rparr>"
  have none: "outfile ?s = None" by (simp add: test_rce_def)
  have ran: "niter (state_after (run (noop_submodels 1) ?s)) = 2"
    by (simp add: run_eval run_loop.simps)
  from no_outfile_no_output [OF none, of "noop_submodels 1"] none ran show ?thesis
    by (simp add: test_rce_def)
qed


subsection \<open>The surface pressure at the start of a run\<close>

text \<open>
  Claim C8. At the start of \<^verbatim>\<open>run()\<close>, before the physics of any iteration is applied, the
  pressure of the surface is set to the lowest half-level pressure \<^verbatim>\<open>phlev[0]\<close> of the
  atmosphere: the state \<open>s0\<close> in which the loop is entered has that pressure and differs from
  the state \<open>s\<close> at the call in nothing else; the first pass, if there is one, starts from
  \<open>s0\<close>, and a run without a pass returns \<open>s0\<close>.
\<close>

theorem run_sets_surface_pressure_first:
  assumes "phlev (atmosphere s) \<noteq> []"
  shows "\<exists>s0. set_surface_pressure s = Inr s0
    \<and> pressure (surface s0) = phlev (atmosphere s) ! 0
    \<and> s0 = s\<lparr>surface := (surface s)\<lparr>pressure := phlev (atmosphere s) ! 0\<rparr>\<rparr>
    \<and> run M s = run_loop M s0
    \<and> (niter s < max_iterations s \<longrightarrow>
         run M s = (case iteration M s0 of
                      Inl e \<Rightarrow> Inl e
                    | Inr t \<Rightarrow> if is_converged t then Inr t
                              else run_loop M (t\<lparr>niter := niter t + 1\<rparr>)))
    \<and> (\<not> niter s < max_iterations s \<longrightarrow> run M s = Inr s0)"
proof -
  from assms obtain p ps where ph: "phlev (atmosphere s) = p # ps"
    by (cases "phlev (atmosphere s)") auto
  let ?s0 = "s\<lparr>surface := (surface s)\<lparr>pressure := p\<rparr>\<rparr>"
  have set: "set_surface_pressure s = Inr ?s0"
    by (simp add: set_surface_pressure_def ph)
  have run: "run M s = run_loop M ?s0"
    by (simp add: run_def set)
  have "niter s < max_iterations s \<longrightarrow>
         run M s = (case iteration M ?s0 of
                      Inl e \<Rightarrow> Inl e
                    | Inr t \<Rightarrow> if is_converged t then Inr t
                              else run_loop M (t\<lparr>niter := niter t + 1\<rparr>))"
    by (simp add: run run_loop.simps [of M ?s0])
  moreover have "\<not> niter s < max_iterations s \<longrightarrow> run M s = Inr ?s0"
    by (simp add: run run_loop.simps [of M ?s0])
  ultimately show ?thesis
    using set run ph by simp
qed

theorem run_sets_surface_pressure_first_witness:
  "phlev (atmosphere test_rce) \<noteq> []
   \<and> pressure (surface test_rce) = 101325
   \<and> set_surface_pressure test_rce = Inr (test_rce\<lparr>surface := test_surface\<lparr>pressure := 100000\<rparr>\<rparr>)
   \<and> run (noop_submodels 1) (test_rce\<lparr>max_iterations := 0\<rparr>)
       = Inr (test_rce\<lparr>max_iterations := 0, surface := test_surface\<lparr>pressure := 100000\<rparr>\<rparr>)"
proof -
  have ne: "phlev (atmosphere test_rce) \<noteq> []"
    and ne0: "phlev (atmosphere (test_rce\<lparr>max_iterations := 0\<rparr>)) \<noteq> []"
    by (simp_all add: test_rce_def test_atmosphere_def)
  from run_sets_surface_pressure_first [OF ne, of "noop_submodels 1"]
  have a: "set_surface_pressure test_rce
      = Inr (test_rce\<lparr>surface := test_surface\<lparr>pressure := 100000\<rparr>\<rparr>)"
    by (auto simp: test_rce_def test_atmosphere_def)
  from run_sets_surface_pressure_first [OF ne0, of "noop_submodels 1"]
  have b: "run (noop_submodels 1) (test_rce\<lparr>max_iterations := 0\<rparr>)
       = Inr (test_rce\<lparr>max_iterations := 0, surface := test_surface\<lparr>pressure := 100000\<rparr>\<rparr>)"
    by (auto simp: test_rce_def test_atmosphere_def)
  from ne a b show ?thesis
    by (simp add: test_rce_def test_surface_def)
qed


subsection \<open>The iteration counter and the flag \<open>converged\<close>\<close>

lemma run_loop_converged_flag: "converged (state_after (run_loop M s)) = converged s"
proof (rule run_loop_rule [where P = "\<lambda>u. converged u = converged s"])
  show "converged s = converged s" ..
next
  fix u t assume "converged u = converged s" "iteration M u = Inr t"
  then show "converged (t\<lparr>niter := niter t + 1\<rparr>) = converged s"
    using iteration_frame_Inr(7) [of M u t] by simp
next
  fix u t assume "converged u = converged s" "iteration M u = Inr t"
  then show "converged (state_after (Inr t)) = converged s"
    using iteration_frame_Inr(7) [of M u t] by (simp add: state_after_def)
next
  fix u e assume "converged u = converged s" "iteration M u = Inl e"
  then show "converged (state_after (Inl e)) = converged s"
    using iteration_frame [of M u] by simp
next
  fix u assume "converged u = converged s"
  then show "converged (state_after (Inr u)) = converged s"
    by (simp add: state_after_def)
qed

lemma run_converged_flag: "converged (state_after (run M s)) = converged s"
proof (cases "phlev (atmosphere s)")
  case Nil
  then show ?thesis
    by (simp add: run_def set_surface_pressure_def state_after_def)
next
  case (Cons p ps)
  then show ?thesis
    using run_loop_converged_flag [of M "s\<lparr>surface := (surface s)\<lparr>pressure := p\<rparr>\<rparr>"]
    by (simp add: run_def set_surface_pressure_def)
qed

lemma run_loop_niter_bounds:
  "niter s \<le> niter (state_after (run_loop M s))
   \<and> (niter s \<le> max_iterations s \<longrightarrow> niter (state_after (run_loop M s)) \<le> max_iterations s)"
proof (rule run_loop_rule [where P = "\<lambda>u. niter s \<le> niter u \<and> max_iterations u = max_iterations s
      \<and> (niter s \<le> max_iterations s \<longrightarrow> niter u \<le> max_iterations s)"])
  show "niter s \<le> niter s \<and> max_iterations s = max_iterations s
      \<and> (niter s \<le> max_iterations s \<longrightarrow> niter s \<le> max_iterations s)" by simp
next
  fix u t
  assume "niter s \<le> niter u \<and> max_iterations u = max_iterations s
      \<and> (niter s \<le> max_iterations s \<longrightarrow> niter u \<le> max_iterations s)"
    "niter u < max_iterations u" "iteration M u = Inr t"
  then show "niter s \<le> niter (t\<lparr>niter := niter t + 1\<rparr>)
      \<and> max_iterations (t\<lparr>niter := niter t + 1\<rparr>) = max_iterations s
      \<and> (niter s \<le> max_iterations s \<longrightarrow> niter (t\<lparr>niter := niter t + 1\<rparr>) \<le> max_iterations s)"
    using iteration_frame_Inr(1,2) [of M u t] by simp
next
  fix u t
  assume "niter s \<le> niter u \<and> max_iterations u = max_iterations s
      \<and> (niter s \<le> max_iterations s \<longrightarrow> niter u \<le> max_iterations s)"
    "iteration M u = Inr t"
  then show "niter s \<le> niter (state_after (Inr t))
      \<and> (niter s \<le> max_iterations s \<longrightarrow> niter (state_after (Inr t)) \<le> max_iterations s)"
    using iteration_frame_Inr(1) [of M u t] by (simp add: state_after_def)
next
  fix u e
  assume "niter s \<le> niter u \<and> max_iterations u = max_iterations s
      \<and> (niter s \<le> max_iterations s \<longrightarrow> niter u \<le> max_iterations s)"
    "iteration M u = Inl e"
  then show "niter s \<le> niter (state_after (Inl e))
      \<and> (niter s \<le> max_iterations s \<longrightarrow> niter (state_after (Inl e)) \<le> max_iterations s)"
    using iteration_frame [of M u] by simp
next
  fix u
  assume "niter s \<le> niter u \<and> max_iterations u = max_iterations s
      \<and> (niter s \<le> max_iterations s \<longrightarrow> niter u \<le> max_iterations s)"
  then show "niter s \<le> niter (state_after (Inr u))
      \<and> (niter s \<le> max_iterations s \<longrightarrow> niter (state_after (Inr u)) \<le> max_iterations s)"
    by (simp add: state_after_def)
qed

lemma run_niter_bounds:
  "niter s \<le> niter (state_after (run M s))
   \<and> (niter s \<le> max_iterations s \<longrightarrow> niter (state_after (run M s)) \<le> max_iterations s)"
proof (cases "phlev (atmosphere s)")
  case Nil
  then show ?thesis
    by (simp add: run_def set_surface_pressure_def state_after_def)
next
  case (Cons p ps)
  then show ?thesis
    using run_loop_niter_bounds [of "s\<lparr>surface := (surface s)\<lparr>pressure := p\<rparr>\<rparr>" M]
    by (simp add: run_def set_surface_pressure_def)
qed

lemma RCE_init_control:
  assumes "RCE_init D a = Inr s"
  shows "niter s = 0" "converged s = False" "max_iterations s = arg_max_iterations a"
    "atmosphere s = arg_atmosphere a" "outfile s = arg_outfile a" "delta s = arg_delta a"
    "timestep s = arg_timestep a" "writeevery s = arg_writeevery a"
  using assms by (auto simp: RCE_init_def Let_def split: sum.splits)

lemma run_loop_exhausts:
  assumes inv: "I s0"
    and le: "niter s0 \<le> max_iterations s0"
    and never: "\<And>u. \<lbrakk>I u; niter u < max_iterations u\<rbrakk>
             \<Longrightarrow> \<exists>t. iteration M u = Inr t \<and> \<not> is_converged t \<and> I (t\<lparr>niter := niter t + 1\<rparr>)"
  shows "\<exists>s'. run_loop M s0 = Inr s' \<and> niter s' = max_iterations s0 \<and> converged s' = converged s0"
proof (rule run_loop_rule [where P = "\<lambda>u. I u \<and> niter u \<le> max_iterations u
      \<and> max_iterations u = max_iterations s0 \<and> converged u = converged s0"])
  show "I s0 \<and> niter s0 \<le> max_iterations s0 \<and> max_iterations s0 = max_iterations s0
      \<and> converged s0 = converged s0"
    using inv le by simp
next
  fix u t
  assume P: "I u \<and> niter u \<le> max_iterations u \<and> max_iterations u = max_iterations s0
      \<and> converged u = converged s0"
    and lt: "niter u < max_iterations u" and it: "iteration M u = Inr t"
  from never [of u] P lt it have "I (t\<lparr>niter := niter t + 1\<rparr>)" by auto
  then show "I (t\<lparr>niter := niter t + 1\<rparr>)
      \<and> niter (t\<lparr>niter := niter t + 1\<rparr>) \<le> max_iterations (t\<lparr>niter := niter t + 1\<rparr>)
      \<and> max_iterations (t\<lparr>niter := niter t + 1\<rparr>) = max_iterations s0
      \<and> converged (t\<lparr>niter := niter t + 1\<rparr>) = converged s0"
    using P lt iteration_frame_Inr(1,2,7) [OF it] by simp
next
  fix u t
  assume P: "I u \<and> niter u \<le> max_iterations u \<and> max_iterations u = max_iterations s0
      \<and> converged u = converged s0"
    and lt: "niter u < max_iterations u" and it: "iteration M u = Inr t" and c: "is_converged t"
  from never [of u] P lt it c have False by auto
  then show "\<exists>s'. Inr t = Inr s' \<and> niter s' = max_iterations s0 \<and> converged s' = converged s0" ..
next
  fix u e
  assume P: "I u \<and> niter u \<le> max_iterations u \<and> max_iterations u = max_iterations s0
      \<and> converged u = converged s0"
    and lt: "niter u < max_iterations u" and it: "iteration M u = Inl e"
  from never [of u] P lt it have False by auto
  then show "\<exists>s'. Inl e = Inr s' \<and> niter s' = max_iterations s0 \<and> converged s' = converged s0" ..
next
  fix u
  assume "I u \<and> niter u \<le> max_iterations u \<and> max_iterations u = max_iterations s0
      \<and> converged u = converged s0" "\<not> niter u < max_iterations u"
  then show "\<exists>s'. Inr u = Inr s' \<and> niter s' = max_iterations s0 \<and> converged s' = converged s0"
    by auto
qed


text \<open>
  Claim C3. Across \<^verbatim>\<open>run()\<close>, \<^verbatim>\<open>niter\<close> starts at 0 (the constructor sets it), a pass
  through the body of the loop leaves it alone, the loop adds exactly one after each pass
  that ends with the convergence predicate false and stops without adding after a pass that
  ends with it true, and \<^verbatim>\<open>niter\<close> never exceeds \<^verbatim>\<open>max_iterations\<close> (which the
  configuration surface takes as positive; nonnegative is enough). If the convergence
  predicate never holds, \<^verbatim>\<open>run()\<close> returns with \<^verbatim>\<open>niter == max_iterations\<close> and
  \<^verbatim>\<open>converged == False\<close>. "Never holds" is said with a set \<open>I\<close> of states that contains
  the state \<open>s0\<close> in which the loop is entered: from a state of \<open>I\<close> a pass completes without
  an exception, ends with the predicate false, and leads into \<open>I\<close> again.
\<close>

theorem niter_counts_unconverged_passes:
  assumes init: "RCE_init D a = Inr s"
    and nonneg: "0 \<le> arg_max_iterations a"
  shows "niter s = 0
    \<and> (\<forall>u t. niter u < max_iterations u \<and> iteration M u = Inr t \<longrightarrow>
          niter t = niter u
          \<and> (\<not> is_converged t \<longrightarrow> run_loop M u = run_loop M (t\<lparr>niter := niter u + 1\<rparr>))
          \<and> (is_converged t \<longrightarrow> run_loop M u = Inr t))
    \<and> 0 \<le> niter (state_after (run M s))
    \<and> niter (state_after (run M s)) \<le> max_iterations s
    \<and> (set_surface_pressure s = Inr s0 \<and> I s0
        \<and> (\<forall>u. I u \<and> niter u < max_iterations u \<longrightarrow>
              (\<exists>t. iteration M u = Inr t \<and> \<not> is_converged t \<and> I (t\<lparr>niter := niter t + 1\<rparr>)))
        \<longrightarrow> (\<exists>s'. run M s = Inr s' \<and> niter s' = max_iterations s \<and> converged s' = False))"
proof -
  note ctl = RCE_init_control [OF init]
  have zero: "niter s = 0" by (rule ctl)
  have pass: "\<forall>u t. niter u < max_iterations u \<and> iteration M u = Inr t \<longrightarrow>
          niter t = niter u
          \<and> (\<not> is_converged t \<longrightarrow> run_loop M u = run_loop M (t\<lparr>niter := niter u + 1\<rparr>))
          \<and> (is_converged t \<longrightarrow> run_loop M u = Inr t)"
  proof (intro allI impI, elim conjE)
    fix u t assume lt: "niter u < max_iterations u" and it: "iteration M u = Inr t"
    have n: "niter t = niter u" using it by (rule iteration_frame_Inr)
    show "niter t = niter u
          \<and> (\<not> is_converged t \<longrightarrow> run_loop M u = run_loop M (t\<lparr>niter := niter u + 1\<rparr>))
          \<and> (is_converged t \<longrightarrow> run_loop M u = Inr t)"
      using lt it n by (simp add: run_loop.simps [of M u])
  qed
  have bounds: "0 \<le> niter (state_after (run M s))
      \<and> niter (state_after (run M s)) \<le> max_iterations s"
    using run_niter_bounds [of s M] zero ctl(3) nonneg by simp
  have exhaust: "set_surface_pressure s = Inr s0 \<and> I s0
        \<and> (\<forall>u. I u \<and> niter u < max_iterations u \<longrightarrow>
              (\<exists>t. iteration M u = Inr t \<and> \<not> is_converged t \<and> I (t\<lparr>niter := niter t + 1\<rparr>)))
        \<longrightarrow> (\<exists>s'. run M s = Inr s' \<and> niter s' = max_iterations s \<and> converged s' = False)"
  proof (intro impI, elim conjE)
    assume set: "set_surface_pressure s = Inr s0" and inv: "I s0"
      and never: "\<forall>u. I u \<and> niter u < max_iterations u \<longrightarrow>
              (\<exists>t. iteration M u = Inr t \<and> \<not> is_converged t \<and> I (t\<lparr>niter := niter t + 1\<rparr>))"
    from set have s0: "niter s0 = niter s" "max_iterations s0 = max_iterations s"
      "converged s0 = converged s"
      by (auto simp: set_surface_pressure_def split: list.splits)
    have le: "niter s0 \<le> max_iterations s0"
      using s0 zero ctl(3) nonneg by simp
    have "\<exists>s'. run_loop M s0 = Inr s' \<and> niter s' = max_iterations s0
        \<and> converged s' = converged s0"
      using inv le never by (intro run_loop_exhausts [where I = I]) auto
    then show "\<exists>s'. run M s = Inr s' \<and> niter s' = max_iterations s \<and> converged s' = False"
      using set s0 ctl(2) by (simp add: run_def)
  qed
  from zero pass bounds exhaust show ?thesis by blast
qed

lemma heating_pass_not_converged:
  fixes u :: "(unit, unit, unit, (profile \<times> profile) list, unit, unit) RCE"
  assumes "T (atmosphere u) \<noteq> []" "radiation u = Conforming ()" "outfile u = None"
    "timestep u = 1" "delta u = 1 / 100"
  shows "\<exists>t. iteration (noop_submodels 1) u = Inr t \<and> \<not> is_converged t
    \<and> T (atmosphere (t\<lparr>niter := niter t + 1\<rparr>)) \<noteq> []
    \<and> radiation (t\<lparr>niter := niter t + 1\<rparr>) = Conforming ()
    \<and> outfile (t\<lparr>niter := niter t + 1\<rparr>) = None
    \<and> timestep (t\<lparr>niter := niter t + 1\<rparr>) = 1
    \<and> delta (t\<lparr>niter := niter t + 1\<rparr>) = 1 / 100"
proof -
  from assms(1) obtain x xs where Tu: "T (atmosphere u) = x # xs"
    by (cases "T (atmosphere u)") auto
  show ?thesis
    using assms(2-) Tu
    by (simp add: iteration_def noop_submodels_def uniform_heating_def write_output_def
        check_if_write_def is_converged_def Let_def)
qed

theorem niter_counts_unconverged_passes_witness:
  "RCE_init test_defaults ((default_args test_atmosphere)\<lparr>arg_max_iterations := 3\<rparr>)
     = Inr (test_rce\<lparr>max_iterations := 3\<rparr>)
   \<and> niter (test_rce\<lparr>max_iterations := 3\<rparr>) = 0
   \<and> (\<exists>s'. run (noop_submodels 1) (test_rce\<lparr>max_iterations := 3\<rparr>) = Inr s'
         \<and> niter s' = 3 \<and> converged s' = False)"
proof -
  let ?a = "(default_args test_atmosphere)\<lparr>arg_max_iterations := 3\<rparr>
    :: (unit, unit, unit, (profile \<times> profile) list, unit, unit) init_args"
  let ?s = "test_rce\<lparr>max_iterations := 3\<rparr>"
  let ?entry = "?s\<lparr>surface := test_surface\<lparr>pressure := 100000\<rparr>\<rparr>"
  let ?I = "\<lambda>u :: (unit, unit, unit, (profile \<times> profile) list, unit, unit) RCE.
    T (atmosphere u) \<noteq> [] \<and> radiation u = Conforming () \<and> outfile u = None
    \<and> timestep u = 1 \<and> delta u = 1 / 100"
  have init: "RCE_init test_defaults ?a = Inr ?s"
    by (simp add: RCE_init_def default_args_def test_defaults_def test_rce_def return_if_type_def)
  have nonneg: "0 \<le> arg_max_iterations ?a" by simp
  have set: "set_surface_pressure ?s = Inr ?entry"
    by (simp add: set_surface_pressure_def test_rce_def test_atmosphere_def)
  have inv: "?I ?entry"
    by (simp add: test_rce_def test_atmosphere_def)
  have never: "\<forall>u. ?I u \<and> niter u < max_iterations u \<longrightarrow>
      (\<exists>t. iteration (noop_submodels 1) u = Inr t \<and> \<not> is_converged t
         \<and> ?I (t\<lparr>niter := niter t + 1\<rparr>))"
    using heating_pass_not_converged by blast
  from niter_counts_unconverged_passes [OF init nonneg, of "noop_submodels 1" ?entry ?I]
    set inv never
  have "niter ?s = 0
    \<and> (\<exists>s'. run (noop_submodels 1) ?s = Inr s' \<and> niter s' = max_iterations ?s
          \<and> converged s' = False)"
    by blast
  with init show ?thesis by simp
qed


subsection \<open>A run that converges in its first pass\<close>

text \<open>When a pass ends with the convergence predicate true the loop stops there: the state
  returned is the one the pass produced, with \<^verbatim>\<open>niter\<close> as it was.\<close>

lemma run_loop_stops_when_converged:
  assumes "niter s < max_iterations s" "iteration M s = Inr t" "is_converged t"
  shows "run_loop M s = Inr t" "niter t = niter s"
  using assms iteration_frame_Inr(1) [of M s t] by (simp_all add: run_loop.simps [of M s])

text \<open>
  Claim C1. When the convergence predicate first holds at the end of an iteration,
  \<^verbatim>\<open>run()\<close> sets the flag \<^verbatim>\<open>converged\<close> of the controller to true and stops without
  incrementing \<^verbatim>\<open>niter\<close>; a configuration in which every entry of \<^verbatim>\<open>deltaT\<close> is below
  \<^verbatim>\<open>delta\<close> after the first iteration ends with \<^verbatim>\<open>converged == True\<close> and \<^verbatim>\<open>niter == 0\<close>.

  The code stops without incrementing \<^verbatim>\<open>niter\<close>, but it never assigns \<^verbatim>\<open>converged\<close>: the
  attribute keeps the value \<^verbatim>\<open>False\<close> that the constructor gave it. The run below is the
  controller the constructor returns for \<open>test_atmosphere\<close>, with submodels that change nothing
  (zero heating): it stops after its first pass with \<^verbatim>\<open>is_converged()\<close> true and
  \<^verbatim>\<open>niter == 0\<close>, and \<^verbatim>\<open>converged\<close> is still \<^verbatim>\<open>False\<close>.
\<close>

theorem run_converges_flag_stays_false:
  "RCE_init test_defaults (default_args test_atmosphere) = Inr test_rce
   \<and> run (noop_submodels 0) test_rce
       = Inr (test_rce\<lparr>atmosphere := test_atmosphere\<lparr>deltaT := [0, 0]\<rparr>,
                       surface := test_surface\<lparr>pressure := 100000\<rparr>,
                       heatingrates := Some \<lparr>lw_flxu = [0], lw_flxd = [0], sw_flxu = [0],
                         sw_flxd = [0], net_htngrt = [0, 0]\<rparr>\<rparr>)
   \<and> is_converged (state_after (run (noop_submodels 0) test_rce))
   \<and> niter (state_after (run (noop_submodels 0) test_rce)) = 0
   \<and> converged (state_after (run (noop_submodels 0) test_rce)) = False"
proof -
  have init: "RCE_init test_defaults (default_args test_atmosphere) = Inr test_rce"
    by (simp add: RCE_init_def default_args_def test_defaults_def test_rce_def return_if_type_def)
  have run: "run (noop_submodels 0) test_rce
       = Inr (test_rce\<lparr>atmosphere := test_atmosphere\<lparr>deltaT := [0, 0]\<rparr>,
                       surface := test_surface\<lparr>pressure := 100000\<rparr>,
                       heatingrates := Some \<lparr>lw_flxu = [0], lw_flxd = [0], sw_flxu = [0],
                         sw_flxd = [0], net_htngrt = [0, 0]\<rparr>\<rparr>)"
    by (simp add: run_eval run_loop.simps numeral_2_eq_2)
  show ?thesis
    unfolding run using init
    by (simp add: state_after_def is_converged_def test_rce_def test_atmosphere_def)
qed


subsection \<open>A pass, step by step\<close>

text \<open>The state a pass hands to the write step, given what the submodels return.\<close>

lemma iteration_unfold:
  assumes "radiation s = Conforming r"
    and "get_heatingrates M (adjust_solar_angle M r (get_hours_passed s / 24))
           (atmosphere s) (surface s) (cloud s) = (hr, r')"
    and "sw_flxd hr \<noteq> []" "sw_flxu hr \<noteq> []" "lw_flxd hr \<noteq> []" "lw_flxu hr \<noteq> []"
    and "lapse_get M (lapse s) (atmosphere s) = (lapse_crit, l')"
    and "stabilize M (convection s)
           ((atmosphere s)\<lparr>T := map2 (\<lambda>t h. t + h * timestep s) (T (atmosphere s)) (net_htngrt hr)\<rparr>)
           lapse_crit (timestep s)
           (adjust M (surface s) (hd (sw_flxd hr)) (hd (sw_flxu hr)) (hd (lw_flxd hr))
              (hd (lw_flxu hr)) (timestep s))
         = (c', atm2, sfc2)"
    and "cool M (upwelling s) atm2 (net_htngrt hr) (timestep s) = (u', atm3)"
    and "humidity_get M (humidity s) (atm3\<lparr>z := calculate_height M atm3\<rparr>) sfc2 (net_htngrt hr)
         = (h2o, h')"
  shows "iteration M s =
    write_output M
      (s\<lparr>radiation := Conforming r', heatingrates := Some hr,
         atmosphere := atm3\<lparr>z := calculate_height M atm3, H2O := h2o,
                             deltaT := map2 (-) (T atm3) (T (atmosphere s))\<rparr>,
         surface := sfc2, lapse := l', convection := c', upwelling := u', humidity := h'\<rparr>)"
  using assms by (simp add: iteration_def Let_def)

lemma check_if_write_cong:
  assumes "outfile a = outfile b" "writeevery a = writeevery b" "niter a = niter b"
    "timestep a = timestep b"
  shows "check_if_write a = check_if_write b"
  using assms by (simp add: check_if_write_def split: pyval.splits)

lemma write_output_Inr:
  assumes "check_if_write s = Inr w"
  shows "write_output M s =
    Inr (if w then (if niter s = 0 then create_outfile M s else append_to_netcdf s) else s)"
  using assms by (simp add: write_output_def)

lemma write_output_frame:
  assumes "write_output M s = Inr t"
  shows "atmosphere t = atmosphere s" "surface t = surface s" "convection t = convection s"
    "delta t = delta s" "is_converged t = is_converged s" "niter t = niter s"
  using assms
  by (auto simp: write_output_def create_outfile_def append_to_netcdf_def is_converged_def
      split: sum.splits if_splits)


subsection \<open>Submodels that change nothing\<close>

lemma map2_add_zero:
  "map2 (\<lambda>t h. t + h * ts) xs (replicate (length xs) (0::real)) = xs"
  by (induction xs) simp_all

lemma map2_diff_self: "map2 (-) xs xs = replicate (length xs) (0::real)"
  by (induction xs) simp_all

text \<open>
  Claim C6. If Convection, Upwelling and Humidity are identity (no-op) submodels and
  Radiation returns a zero net heating rate, then after one iteration the temperature
  profile \<^verbatim>\<open>T\<close> equals its value before the iteration, \<^verbatim>\<open>deltaT\<close> is the zero profile, and
  for any \<^verbatim>\<open>delta > 0\<close> the run converges immediately. The pass completes when the radiation
  object is a radiation model, its fluxes have a level 0, and the write cadence is usable
  (no output target, or a cadence other than zero); the run needs a half level for the
  surface pressure.
\<close>

theorem noop_submodels_converge_immediately:
  fixes M :: "('r, 'h, 'k, 'c, 'l, 'u) submodels"
  assumes conv: "stabilize M = (\<lambda>c atm lapse_crit ts sfc. (c, atm, sfc))"
    and upw: "cool M = (\<lambda>u atm radheat ts. (u, atm))"
    and hum: "humidity_get M = (\<lambda>h atm sfc nh. (H2O atm, h))"
    and zero: "\<forall>r atm sfc k.
        net_htngrt (fst (get_heatingrates M r atm sfc k)) = replicate (length (T atm)) 0"
    and fluxes: "\<forall>r atm sfc k.
        sw_flxd (fst (get_heatingrates M r atm sfc k)) \<noteq> []
        \<and> sw_flxu (fst (get_heatingrates M r atm sfc k)) \<noteq> []
        \<and> lw_flxd (fst (get_heatingrates M r atm sfc k)) \<noteq> []
        \<and> lw_flxu (fst (get_heatingrates M r atm sfc k)) \<noteq> []"
    and rad: "radiation s = Conforming r"
    and cadence: "outfile s = None \<or> (\<exists>w. writeevery s = PyInt w \<and> w \<noteq> 0)
        \<or> (\<exists>w. writeevery s = PyFloat w \<and> w \<noteq> 0)"
  shows "(\<exists>t. iteration M s = Inr t
        \<and> T (atmosphere t) = T (atmosphere s)
        \<and> deltaT (atmosphere t) = replicate (length (T (atmosphere s))) 0
        \<and> (0 < delta s \<longrightarrow> is_converged t))
    \<and> (0 < delta s \<and> niter s < max_iterations s \<and> phlev (atmosphere s) \<noteq> [] \<longrightarrow>
         (\<exists>t. run M s = Inr t \<and> is_converged t \<and> niter t = niter s
            \<and> T (atmosphere t) = T (atmosphere s)
            \<and> deltaT (atmosphere t) = replicate (length (T (atmosphere s))) 0))"
proof -
  have pass: "\<exists>t. iteration M u = Inr t
        \<and> T (atmosphere t) = T (atmosphere u)
        \<and> deltaT (atmosphere t) = replicate (length (T (atmosphere u))) 0
        \<and> (0 < delta u \<longrightarrow> is_converged t)"
    if radu: "radiation u = Conforming r"
      and cadu: "outfile u = None \<or> (\<exists>w. writeevery u = PyInt w \<and> w \<noteq> 0)
        \<or> (\<exists>w. writeevery u = PyFloat w \<and> w \<noteq> 0)"
    for u :: "('r, 'h, 'k, 'c, 'l, 'u) RCE"
  proof -
    obtain hr r' where hr: "get_heatingrates M (adjust_solar_angle M r (get_hours_passed u / 24))
        (atmosphere u) (surface u) (cloud u) = (hr, r')"
      by (cases "get_heatingrates M (adjust_solar_angle M r (get_hours_passed u / 24))
        (atmosphere u) (surface u) (cloud u)")
    have net: "net_htngrt hr = replicate (length (T (atmosphere u))) 0"
      using zero [rule_format, of "adjust_solar_angle M r (get_hours_passed u / 24)"
          "atmosphere u" "surface u" "cloud u"] hr by simp
    have fl: "sw_flxd hr \<noteq> []" "sw_flxu hr \<noteq> []" "lw_flxd hr \<noteq> []" "lw_flxu hr \<noteq> []"
      using fluxes [rule_format, of "adjust_solar_angle M r (get_hours_passed u / 24)"
          "atmosphere u" "surface u" "cloud u"] hr by simp_all
    have "\<exists>w. check_if_write u = Inr w"
      using cadu by (cases "outfile u = None") (auto simp: check_if_write_def)
    then obtain w where w: "check_if_write u = Inr w" ..
    obtain lc l' where lg: "lapse_get M (lapse u) (atmosphere u) = (lc, l')"
      by (cases "lapse_get M (lapse u) (atmosphere u)")
    let ?sfc = "adjust M (surface u) (hd (sw_flxd hr)) (hd (sw_flxu hr)) (hd (lw_flxd hr))
      (hd (lw_flxu hr)) (timestep u)"
    let ?atm = "(atmosphere u)
      \<lparr>T := map2 (\<lambda>t h. t + h * timestep u) (T (atmosphere u)) (net_htngrt hr)\<rparr>"
    let ?v = "u\<lparr>radiation := Conforming r', heatingrates := Some hr,
         atmosphere := ?atm\<lparr>z := calculate_height M ?atm, H2O := H2O (?atm\<lparr>z := calculate_height M ?atm\<rparr>),
                             deltaT := map2 (-) (T ?atm) (T (atmosphere u))\<rparr>,
         surface := ?sfc, lapse := l', convection := convection u, upwelling := upwelling u,
         humidity := humidity u\<rparr>"
    have it: "iteration M u = write_output M ?v"
      by (rule iteration_unfold [OF radu hr fl lg]) (simp_all add: conv upw hum)
    have "check_if_write ?v = check_if_write u"
      by (rule check_if_write_cong) simp_all
    with w have wo: "write_output M ?v
        = Inr (if w then (if niter ?v = 0 then create_outfile M ?v else append_to_netcdf ?v)
               else ?v)"
      by (simp add: write_output_Inr)
    let ?t = "if w then (if niter ?v = 0 then create_outfile M ?v else append_to_netcdf ?v)
               else ?v"
    have fr: "atmosphere ?t = atmosphere ?v" "delta ?t = delta ?v"
      "is_converged ?t = is_converged ?v"
      using write_output_frame [OF wo] by simp_all
    have Tv: "T (atmosphere ?v) = T (atmosphere u)"
      by (simp add: net map2_add_zero)
    have dv: "deltaT (atmosphere ?v) = replicate (length (T (atmosphere u))) 0"
      by (simp add: net map2_add_zero map2_diff_self)
    have cv: "0 < delta u \<longrightarrow> is_converged ?v"
      unfolding is_converged_def dv by (simp add: list_all_length)
    show ?thesis
      unfolding it wo using fr Tv dv cv by (intro exI [of _ ?t]) simp
  qed
  have first: "\<exists>t. iteration M s = Inr t
        \<and> T (atmosphere t) = T (atmosphere s)
        \<and> deltaT (atmosphere t) = replicate (length (T (atmosphere s))) 0
        \<and> (0 < delta s \<longrightarrow> is_converged t)"
    using rad cadence by (rule pass)
  have whole: "0 < delta s \<and> niter s < max_iterations s \<and> phlev (atmosphere s) \<noteq> [] \<longrightarrow>
         (\<exists>t. run M s = Inr t \<and> is_converged t \<and> niter t = niter s
            \<and> T (atmosphere t) = T (atmosphere s)
            \<and> deltaT (atmosphere t) = replicate (length (T (atmosphere s))) 0)"
  proof (intro impI, elim conjE)
    assume pos: "0 < delta s" and lt: "niter s < max_iterations s"
      and ph: "phlev (atmosphere s) \<noteq> []"
    from ph obtain p ps where phc: "phlev (atmosphere s) = p # ps"
      by (cases "phlev (atmosphere s)") auto
    let ?u = "s\<lparr>surface := (surface s)\<lparr>pressure := p\<rparr>\<rparr>"
    have run: "run M s = run_loop M ?u"
      by (simp add: run_def set_surface_pressure_def phc)
    have "radiation ?u = Conforming r" using rad by simp
    moreover have "outfile ?u = None \<or> (\<exists>w. writeevery ?u = PyInt w \<and> w \<noteq> 0)
        \<or> (\<exists>w. writeevery ?u = PyFloat w \<and> w \<noteq> 0)"
      using cadence by simp
    ultimately obtain t where t: "iteration M ?u = Inr t"
      "T (atmosphere t) = T (atmosphere ?u)"
      "deltaT (atmosphere t) = replicate (length (T (atmosphere ?u))) 0"
      "0 < delta ?u \<longrightarrow> is_converged t"
      using pass [of ?u] by blast
    from t(4) pos have c: "is_converged t" by simp
    have ltu: "niter ?u < max_iterations ?u" using lt by simp
    from run_loop_stops_when_converged [OF ltu t(1) c] run t(2,3) c
    show "\<exists>t. run M s = Inr t \<and> is_converged t \<and> niter t = niter s
            \<and> T (atmosphere t) = T (atmosphere s)
            \<and> deltaT (atmosphere t) = replicate (length (T (atmosphere s))) 0"
      by simp
  qed
  from first whole show ?thesis by blast
qed

theorem noop_submodels_converge_immediately_witness:
  "0 < delta test_rce \<and> niter test_rce < max_iterations test_rce
   \<and> (\<exists>t. iteration (noop_submodels 0) test_rce = Inr t
         \<and> T (atmosphere t) = [300, 250] \<and> deltaT (atmosphere t) = [0, 0] \<and> is_converged t)
   \<and> (\<exists>t. run (noop_submodels 0) test_rce = Inr t \<and> is_converged t \<and> niter t = 0
         \<and> T (atmosphere t) = [300, 250] \<and> deltaT (atmosphere t) = [0, 0])"
proof -
  let ?M = "noop_submodels 0
    :: (unit, unit, unit, (profile \<times> profile) list, unit, unit) submodels"
  have conv: "stabilize ?M = (\<lambda>c atm lapse_crit ts sfc. (c, atm, sfc))"
    and upw: "cool ?M = (\<lambda>u atm radheat ts. (u, atm))"
    and hum: "humidity_get ?M = (\<lambda>h atm sfc nh. (H2O atm, h))"
    by (simp_all add: noop_submodels_def)
  have zero: "\<forall>r atm sfc k.
        net_htngrt (fst (get_heatingrates ?M r atm sfc k)) = replicate (length (T atm)) 0"
    by (simp add: noop_submodels_def uniform_heating_def)
  have fluxes: "\<forall>r atm sfc k.
        sw_flxd (fst (get_heatingrates ?M r atm sfc k)) \<noteq> []
        \<and> sw_flxu (fst (get_heatingrates ?M r atm sfc k)) \<noteq> []
        \<and> lw_flxd (fst (get_heatingrates ?M r atm sfc k)) \<noteq> []
        \<and> lw_flxu (fst (get_heatingrates ?M r atm sfc k)) \<noteq> []"
    by (simp add: noop_submodels_def uniform_heating_def)
  have rad: "radiation test_rce = Conforming ()"
    by (simp add: test_rce_def)
  have cadence: "outfile test_rce = None \<or> (\<exists>w. writeevery test_rce = PyInt w \<and> w \<noteq> 0)
        \<or> (\<exists>w. writeevery test_rce = PyFloat w \<and> w \<noteq> 0)"
    by (simp add: test_rce_def)
  have side: "0 < delta test_rce" "niter test_rce < max_iterations test_rce"
    "phlev (atmosphere test_rce) \<noteq> []" "T (atmosphere test_rce) = [300, 250]"
    "niter test_rce = 0"
    by (simp_all add: test_rce_def test_atmosphere_def)
  from noop_submodels_converge_immediately [OF conv upw hum zero fluxes rad cadence] side
  show ?thesis
    by (simp add: numeral_2_eq_2)
qed


subsection \<open>The order of the steps within a pass\<close>

text \<open>
  Claim C5. Within every iteration of \<^verbatim>\<open>run()\<close>, the temperature profile is snapshotted
  and the critical lapse rate is queried before the net heating rate is applied to \<^verbatim>\<open>T\<close>,
  and \<^verbatim>\<open>Convection.stabilize\<close> is invoked only after \<^verbatim>\<open>T += net_heating_rate * timestep\<close>:
  any Convection implementation observes the temperature after the radiative heating, never
  the one from before the iteration.

  For any submodels \<open>M\<close> and any pass that completes: the state of the convection object
  after the pass is what \<open>stabilize M\<close> returns when it is called with the atmosphere whose
  \<open>T\<close> is the heated profile, with the lapse rate that \<open>lapse_get M\<close> returns on the
  atmosphere from before the heating, and with the surface after \<open>adjust M\<close>; and \<open>deltaT\<close> is
  the final \<open>T\<close> minus the \<open>T\<close> from before the pass (the snapshot).
\<close>

theorem stabilize_sees_heated_temperature:
  assumes rad: "radiation s = Conforming r"
    and it: "iteration M s = Inr t"
  shows "let hr = fst (get_heatingrates M (adjust_solar_angle M r (get_hours_passed s / 24))
                         (atmosphere s) (surface s) (cloud s));
             heated = map2 (\<lambda>x h. x + h * timestep s) (T (atmosphere s)) (net_htngrt hr);
             lapse_crit = fst (lapse_get M (lapse s) (atmosphere s));
             sfc = adjust M (surface s) (hd (sw_flxd hr)) (hd (sw_flxu hr)) (hd (lw_flxd hr))
                     (hd (lw_flxu hr)) (timestep s)
         in convection t
              = fst (stabilize M (convection s) ((atmosphere s)\<lparr>T := heated\<rparr>) lapse_crit
                       (timestep s) sfc)
            \<and> deltaT (atmosphere t) = map2 (-) (T (atmosphere t)) (T (atmosphere s))"
proof -
  obtain hr r' where hr: "get_heatingrates M (adjust_solar_angle M r (get_hours_passed s / 24))
      (atmosphere s) (surface s) (cloud s) = (hr, r')"
    by (cases "get_heatingrates M (adjust_solar_angle M r (get_hours_passed s / 24))
      (atmosphere s) (surface s) (cloud s)")
  have fl: "sw_flxd hr \<noteq> []" "sw_flxu hr \<noteq> []" "lw_flxd hr \<noteq> []" "lw_flxu hr \<noteq> []"
    using it rad hr by (auto simp: iteration_def Let_def split: if_splits)
  obtain lc l' where lg: "lapse_get M (lapse s) (atmosphere s) = (lc, l')"
    by (cases "lapse_get M (lapse s) (atmosphere s)")
  let ?sfc = "adjust M (surface s) (hd (sw_flxd hr)) (hd (sw_flxu hr)) (hd (lw_flxd hr))
      (hd (lw_flxu hr)) (timestep s)"
  let ?atm = "(atmosphere s)
      \<lparr>T := map2 (\<lambda>x h. x + h * timestep s) (T (atmosphere s)) (net_htngrt hr)\<rparr>"
  obtain c' atm2 sfc2 where st:
    "stabilize M (convection s) ?atm lc (timestep s) ?sfc = (c', atm2, sfc2)"
    by (cases "stabilize M (convection s) ?atm lc (timestep s) ?sfc") auto
  obtain u' atm3 where co: "cool M (upwelling s) atm2 (net_htngrt hr) (timestep s) = (u', atm3)"
    by (cases "cool M (upwelling s) atm2 (net_htngrt hr) (timestep s)")
  obtain h2o h' where hu:
    "humidity_get M (humidity s) (atm3\<lparr>z := calculate_height M atm3\<rparr>) sfc2 (net_htngrt hr)
       = (h2o, h')"
    by (cases "humidity_get M (humidity s) (atm3\<lparr>z := calculate_height M atm3\<rparr>) sfc2
      (net_htngrt hr)")
  let ?v = "s\<lparr>radiation := Conforming r', heatingrates := Some hr,
         atmosphere := atm3\<lparr>z := calculate_height M atm3, H2O := h2o,
                             deltaT := map2 (-) (T atm3) (T (atmosphere s))\<rparr>,
         surface := sfc2, lapse := l', convection := c', upwelling := u', humidity := h'\<rparr>"
  have "iteration M s = write_output M ?v"
    by (rule iteration_unfold [OF rad hr fl lg st co hu])
  with it have wo: "write_output M ?v = Inr t" by simp
  have "convection t = c'" "atmosphere t = atmosphere ?v"
    using write_output_frame [OF wo] by simp_all
  then show ?thesis
    using hr lg st by (simp add: Let_def)
qed

theorem stabilize_sees_heated_temperature_witness:
  "\<exists>t. iteration (noop_submodels 2\<lparr>stabilize := observing_stabilize\<rparr>)
          (test_rce\<lparr>timestep := 1 / 2\<rparr>) = Inr t
     \<and> convection t = [([301, 251], [0, 0])]
     \<and> deltaT (atmosphere t) = [1, 1]"
proof -
  let ?M = "noop_submodels 2\<lparr>stabilize := observing_stabilize\<rparr>"
  let ?s = "test_rce\<lparr>timestep := 1 / 2\<rparr>"
  have rad: "radiation ?s = Conforming ()" by (simp add: test_rce_def)
  obtain t where it: "iteration ?M ?s = Inr t" and Tt: "T (atmosphere t) = [301, 251]"
    by (simp add: run_eval numeral_2_eq_2)
  from stabilize_sees_heated_temperature [OF rad it] Tt
  have "convection t = [([301, 251], [0, 0])] \<and> deltaT (atmosphere t) = [1, 1]"
    by (simp add: run_eval numeral_2_eq_2)
  with it show ?thesis by blast
qed


subsection \<open>The constructor\<close>

text \<open>\<^verbatim>\<open>return_if_type\<close> fails exactly on an object of another class.\<close>

lemma return_if_type_if:
  "return_if_type v n d =
     (if v = Some Nonconforming then Inl ConfigurationError
      else Inr (case v of None \<Rightarrow> d
                | Some x \<Rightarrow> (case x of Conforming y \<Rightarrow> y | Nonconforming \<Rightarrow> d)))"
  by (simp add: return_if_type_def split: option.splits supplied.splits)

text \<open>
  Claim C7, as stated: for every submodel argument supplied at construction (radiation,
  humidity, surface, cloud, convection, lapse, upwelling), if the supplied object does not
  satisfy the capability contract of its role, the constructor fails with
  \<^verbatim>\<open>ConfigurationError\<close>; an omitted argument is replaced by the documented default.

  This fails for radiation: lines 69 to 72 take a supplied radiation object as it is. The
  constructor returns a controller that holds an object which is no radiation model.
\<close>

theorem radiation_argument_is_not_checked:
  "RCE_init test_defaults ((default_args test_atmosphere)\<lparr>arg_radiation := Some Nonconforming\<rparr>)
     = Inr (test_rce\<lparr>radiation := Nonconforming\<rparr>)"
  by (simp add: RCE_init_def default_args_def test_defaults_def test_rce_def return_if_type_def)

text \<open>
  Claim C7, amended: for each of the six arguments humidity, surface, cloud, convection,
  lapse and upwelling, a supplied object that does not satisfy the contract of its role makes
  the constructor fail with \<^verbatim>\<open>ConfigurationError\<close>; when none of the six is such an object
  the constructor returns a controller in which every omitted argument, radiation included,
  is replaced by its default and every supplied one is kept; a supplied radiation object is
  kept without a check.
\<close>

theorem constructor_checks_all_but_radiation:
  "((arg_humidity a = Some Nonconforming \<or> arg_surface a = Some Nonconforming
      \<or> arg_cloud a = Some Nonconforming \<or> arg_convection a = Some Nonconforming
      \<or> arg_lapse a = Some Nonconforming \<or> arg_upwelling a = Some Nonconforming)
     \<longrightarrow> RCE_init D a = Inl ConfigurationError)
   \<and> (arg_humidity a \<noteq> Some Nonconforming \<and> arg_surface a \<noteq> Some Nonconforming
      \<and> arg_cloud a \<noteq> Some Nonconforming \<and> arg_convection a \<noteq> Some Nonconforming
      \<and> arg_lapse a \<noteq> Some Nonconforming \<and> arg_upwelling a \<noteq> Some Nonconforming
     \<longrightarrow> (\<exists>s. RCE_init D a = Inr s
          \<and> (arg_radiation a = None \<longrightarrow> radiation s = Conforming (RRTMG D))
          \<and> (\<forall>x. arg_radiation a = Some x \<longrightarrow> radiation s = x)
          \<and> (arg_humidity a = None \<longrightarrow> humidity s = FixedRH D)
          \<and> (\<forall>x. arg_humidity a = Some (Conforming x) \<longrightarrow> humidity s = x)
          \<and> (arg_surface a = None \<longrightarrow> surface s = SurfaceHeatCapacity D)
          \<and> (\<forall>x. arg_surface a = Some (Conforming x) \<longrightarrow> surface s = x)
          \<and> (arg_cloud a = None \<longrightarrow> cloud s = ClearSky D)
          \<and> (\<forall>x. arg_cloud a = Some (Conforming x) \<longrightarrow> cloud s = x)
          \<and> (arg_convection a = None \<longrightarrow> convection s = HardAdjustment D)
          \<and> (\<forall>x. arg_convection a = Some (Conforming x) \<longrightarrow> convection s = x)
          \<and> (arg_lapse a = None \<longrightarrow> lapse s = MoistLapseRate D)
          \<and> (\<forall>x. arg_lapse a = Some (Conforming x) \<longrightarrow> lapse s = x)
          \<and> (arg_upwelling a = None \<longrightarrow> upwelling s = NoUpwelling D)
          \<and> (\<forall>x. arg_upwelling a = Some (Conforming x) \<longrightarrow> upwelling s = x)))"
proof -
  have fail: "(arg_humidity a = Some Nonconforming \<or> arg_surface a = Some Nonconforming
      \<or> arg_cloud a = Some Nonconforming \<or> arg_convection a = Some Nonconforming
      \<or> arg_lapse a = Some Nonconforming \<or> arg_upwelling a = Some Nonconforming)
     \<longrightarrow> RCE_init D a = Inl ConfigurationError"
    by (simp add: RCE_init_def return_if_type_if Let_def)
  have ok: "arg_humidity a \<noteq> Some Nonconforming \<and> arg_surface a \<noteq> Some Nonconforming
      \<and> arg_cloud a \<noteq> Some Nonconforming \<and> arg_convection a \<noteq> Some Nonconforming
      \<and> arg_lapse a \<noteq> Some Nonconforming \<and> arg_upwelling a \<noteq> Some Nonconforming
     \<longrightarrow> (\<exists>s. RCE_init D a = Inr s
          \<and> (arg_radiation a = None \<longrightarrow> radiation s = Conforming (RRTMG D))
          \<and> (\<forall>x. arg_radiation a = Some x \<longrightarrow> radiation s = x)
          \<and> (arg_humidity a = None \<longrightarrow> humidity s = FixedRH D)
          \<and> (\<forall>x. arg_humidity a = Some (Conforming x) \<longrightarrow> humidity s = x)
          \<and> (arg_surface a = None \<longrightarrow> surface s = SurfaceHeatCapacity D)
          \<and> (\<forall>x. arg_surface a = Some (Conforming x) \<longrightarrow> surface s = x)
          \<and> (arg_cloud a = None \<longrightarrow> cloud s = ClearSky D)
          \<and> (\<forall>x. arg_cloud a = Some (Conforming x) \<longrightarrow> cloud s = x)
          \<and> (arg_convection a = None \<longrightarrow> convection s = HardAdjustment D)
          \<and> (\<forall>x. arg_convection a = Some (Conforming x) \<longrightarrow> convection s = x)
          \<and> (arg_lapse a = None \<longrightarrow> lapse s = MoistLapseRate D)
          \<and> (\<forall>x. arg_lapse a = Some (Conforming x) \<longrightarrow> lapse s = x)
          \<and> (arg_upwelling a = None \<longrightarrow> upwelling s = NoUpwelling D)
          \<and> (\<forall>x. arg_upwelling a = Some (Conforming x) \<longrightarrow> upwelling s = x))"
    by (simp add: RCE_init_def return_if_type_if Let_def)
  from fail ok show ?thesis by (rule conjI)
qed

theorem constructor_checks_all_but_radiation_witness:
  "RCE_init test_defaults ((default_args test_atmosphere)\<lparr>arg_convection := Some Nonconforming\<rparr>)
     = Inl ConfigurationError
   \<and> (\<exists>s. RCE_init test_defaults
            ((default_args test_atmosphere)\<lparr>arg_convection := Some (Conforming [([1], [2])])\<rparr>)
          = Inr s
        \<and> radiation s = Conforming () \<and> surface s = test_surface
        \<and> convection s = [([1], [2])])"
proof -
  let ?bad = "(default_args test_atmosphere)\<lparr>arg_convection := Some Nonconforming\<rparr>
    :: (unit, unit, unit, (profile \<times> profile) list, unit, unit) init_args"
  let ?good = "(default_args test_atmosphere)\<lparr>arg_convection := Some (Conforming [([1], [2])])\<rparr>
    :: (unit, unit, unit, (profile \<times> profile) list, unit, unit) init_args"
  have "RCE_init test_defaults ?bad = Inl ConfigurationError"
    using constructor_checks_all_but_radiation [of ?bad test_defaults]
    by (simp add: default_args_def)
  moreover have "\<exists>s. RCE_init test_defaults ?good = Inr s
        \<and> radiation s = Conforming () \<and> surface s = test_surface
        \<and> convection s = [([1], [2])]"
    using constructor_checks_all_but_radiation [of ?good test_defaults]
    by (simp add: default_args_def test_defaults_def)
  ultimately show ?thesis by (rule conjI)
qed

subsection \<open>The first write creates the output file\<close>

lemma pow2_pos: "0 < pow2 k"
  by (simp add: pow2_def)

lemma ulp_pos: "0 < ulp x"
  by (simp add: ulp_def pow2_pos)

text \<open>Rounding a positive quotient to an integer gives at least zero and less than twice the
  quotient.\<close>

lemma round_half_even_bounds:
  assumes "0 < q"
  shows "0 \<le> round_half_even q" "real_of_int (round_half_even q) < 2 * q"
proof -
  have f0: "0 \<le> \<lfloor>q\<rfloor>" using assms by simp
  then show "0 \<le> round_half_even q"
    by (simp add: round_half_even_def)
  have fl: "real_of_int \<lfloor>q\<rfloor> < 2 * q"
    using assms of_int_floor_le [of q] by linarith
  show "real_of_int (round_half_even q) < 2 * q"
  proof (cases "q - of_int \<lfloor>q\<rfloor> < 1 / 2")
    case True
    with fl show ?thesis by (simp add: round_half_even_def)
  next
    case False
    note nlt = this
    show ?thesis
    proof (cases "1 / 2 < q - of_int \<lfloor>q\<rfloor>")
      case True
      have "0 \<le> real_of_int \<lfloor>q\<rfloor>" using f0 by simp
      with True have "real_of_int \<lfloor>q\<rfloor> + 1 < 2 * q" by linarith
      with nlt True show ?thesis by (simp add: round_half_even_def)
    next
      case False
      with nlt have half: "q - of_int \<lfloor>q\<rfloor> = 1 / 2" by linarith
      show ?thesis
      proof (cases "even \<lfloor>q\<rfloor>")
        case True
        with nlt False fl show ?thesis by (simp add: round_half_even_def)
      next
        case odd: False
        then have "\<lfloor>q\<rfloor> \<noteq> 0" by auto
        with f0 have "1 \<le> \<lfloor>q\<rfloor>" by linarith
        then have "1 \<le> real_of_int \<lfloor>q\<rfloor>" by simp
        with half have "real_of_int \<lfloor>q\<rfloor> + 1 < 2 * q" by linarith
        with nlt False odd show ?thesis by (simp add: round_half_even_def)
      qed
    qed
  qed
qed

lemma round_double_bounds:
  assumes "0 < x"
  shows "0 \<le> round_double x" "round_double x < 2 * x"
proof -
  have q: "0 < x / ulp x" using assms ulp_pos [of x] by simp
  have "0 \<le> real_of_int (round_half_even (x / ulp x))"
    using round_half_even_bounds(1) [OF q] by simp
  then show "0 \<le> round_double x"
    using ulp_pos [of x] by (simp add: round_double_def)
  have "real_of_int (round_half_even (x / ulp x)) * ulp x < 2 * (x / ulp x) * ulp x"
    using round_half_even_bounds(2) [OF q] ulp_pos [of x] by (simp only: mult_strict_right_mono)
  then show "round_double x < 2 * x"
    using ulp_pos [of x] by (simp add: round_double_def)
qed

lemma round_double_zero: "round_double 0 = 0"
  by (simp add: round_double_def round_half_even_def)

lemma round_double_half: "round_double (1 / 2) = 1 / 2"
  by (simp add: float_eval)

text \<open>The remainder of a nonnegative float by a positive one is at most the dividend.\<close>

lemma float_mod_le:
  assumes "0 \<le> x" "0 < w"
  shows "float_mod x w \<le> x"
proof -
  have q: "0 \<le> x / w" using assms by simp
  then have m: "fmod x w = x - w * of_int \<lfloor>x / w\<rfloor>" by (simp add: fmod_def)
  have "real_of_int \<lfloor>x / w\<rfloor> \<le> x / w" by simp
  then have "w * real_of_int \<lfloor>x / w\<rfloor> \<le> w * (x / w)"
    using assms(2) by (simp only: mult_left_mono less_imp_le)
  then have nonneg: "0 \<le> fmod x w" using assms(2) m by simp
  have "0 \<le> \<lfloor>x / w\<rfloor>" using q by simp
  then have "0 \<le> w * real_of_int \<lfloor>x / w\<rfloor>" using assms(2) by simp
  then have le: "fmod x w \<le> x" using m by simp
  from nonneg le assms show ?thesis
    by (simp add: float_mod_def Let_def)
qed

lemma check_if_write_at_zero:
  assumes "outfile s = Some f" "0 < timestep s" "niter s = 0"
    and "(\<exists>w. writeevery s = PyInt w \<and> 0 < w) \<or> (\<exists>w. writeevery s = PyFloat w \<and> 0 < w)"
  shows "check_if_write s = Inr True"
proof -
  have half: "float_add (int_to_float 0) (1 / 2) = 1 / 2"
    by (simp add: float_add_def int_to_float_def round_double_zero round_double_half)
  have pos: "0 < 1 / 2 * timestep s" using assms(2) by simp
  have prod: "0 \<le> float_mul (1 / 2) (timestep s)" "float_mul (1 / 2) (timestep s) < timestep s"
    using round_double_bounds [OF pos] by (simp_all add: float_mul_def)
  have "float_mod (float_mul (float_add (int_to_float 0) (1 / 2)) (timestep s)) w < timestep s"
    if "0 < w" for w
    using float_mod_le [OF prod(1) that] prod(2) by (simp add: half)
  then show ?thesis
    using assms by (auto simp: check_if_write_def)
qed

text \<open>What one pass adds to the output target: nothing or one operation, which is a
  creation exactly when the pass started at \<^verbatim>\<open>niter == 0\<close>.\<close>

lemma iteration_output:
  "\<exists>ops. output_target (state_after (iteration M s)) = output_target s @ ops
     \<and> (ops = [] \<or> (\<exists>x. ops = [x] \<and> is_create x = (niter s = 0)))"
  by (auto simp: iteration_def write_output_def create_outfile_def append_to_netcdf_def Let_def
      state_after_def split: supplied.splits prod.splits if_splits sum.splits)

lemma iteration_creates_at_zero:
  assumes it: "iteration M s = Inr t" and n0: "niter s = 0"
    and out: "outfile s = Some f" and ts: "0 < timestep s"
    and we: "(\<exists>w. writeevery s = PyInt w \<and> 0 < w) \<or> (\<exists>w. writeevery s = PyFloat w \<and> 0 < w)"
  shows "\<exists>x. output_target t = output_target s @ [x] \<and> is_create x"
proof -
  from it obtain v where wo: "write_output M v = Inr t"
    and v: "outfile v = outfile s" "writeevery v = writeevery s" "niter v = niter s"
      "timestep v = timestep s" "output_target v = output_target s"
    by (auto simp: iteration_def Let_def split: supplied.splits prod.splits if_splits)
  have "check_if_write v = Inr True"
    using check_if_write_at_zero [of v f] v out ts n0 we by simp
  with wo v n0 show ?thesis
    by (auto simp: write_output_def create_outfile_def)
qed

lemma run_loop_appends_only:
  assumes "0 < niter s"
  shows "\<exists>ops. output_target (state_after (run_loop M s)) = output_target s @ ops
     \<and> list_all (\<lambda>y. \<not> is_create y) ops"
proof (rule run_loop_rule [where P = "\<lambda>u. 0 < niter u
      \<and> (\<exists>ops. output_target u = output_target s @ ops \<and> list_all (\<lambda>y. \<not> is_create y) ops)"])
  show "0 < niter s
      \<and> (\<exists>ops. output_target s = output_target s @ ops \<and> list_all (\<lambda>y. \<not> is_create y) ops)"
    using assms by simp
next
  fix u t
  assume P: "0 < niter u
      \<and> (\<exists>ops. output_target u = output_target s @ ops \<and> list_all (\<lambda>y. \<not> is_create y) ops)"
    and it: "iteration M u = Inr t"
  from iteration_output [of M u] it P
  have "\<exists>ops. output_target t = output_target s @ ops \<and> list_all (\<lambda>y. \<not> is_create y) ops"
    by (auto simp: state_after_def)
  then show "0 < niter (t\<lparr>niter := niter t + 1\<rparr>)
      \<and> (\<exists>ops. output_target (t\<lparr>niter := niter t + 1\<rparr>) = output_target s @ ops
            \<and> list_all (\<lambda>y. \<not> is_create y) ops)"
    using P iteration_frame_Inr(1) [OF it] by simp
next
  fix u t
  assume P: "0 < niter u
      \<and> (\<exists>ops. output_target u = output_target s @ ops \<and> list_all (\<lambda>y. \<not> is_create y) ops)"
    and it: "iteration M u = Inr t"
  from iteration_output [of M u] it P
  show "\<exists>ops. output_target (state_after (Inr t)) = output_target s @ ops
      \<and> list_all (\<lambda>y. \<not> is_create y) ops"
    by (auto simp: state_after_def)
next
  fix u e
  assume P: "0 < niter u
      \<and> (\<exists>ops. output_target u = output_target s @ ops \<and> list_all (\<lambda>y. \<not> is_create y) ops)"
    and it: "iteration M u = Inl e"
  from iteration_output [of M u] it P
  show "\<exists>ops. output_target (state_after (Inl e)) = output_target s @ ops
      \<and> list_all (\<lambda>y. \<not> is_create y) ops"
    by auto
next
  fix u
  assume "0 < niter u
      \<and> (\<exists>ops. output_target u = output_target s @ ops \<and> list_all (\<lambda>y. \<not> is_create y) ops)"
  then show "\<exists>ops. output_target (state_after (Inr u)) = output_target s @ ops
      \<and> list_all (\<lambda>y. \<not> is_create y) ops"
    by (simp add: state_after_def)
qed


text \<open>
  Claim C10. For every configuration with an output target, a positive \<^verbatim>\<open>timestep\<close> and a
  positive \<^verbatim>\<open>writeevery\<close> that is an \<^verbatim>\<open>int\<close> or a \<^verbatim>\<open>float\<close>, \<^verbatim>\<open>check_if_write\<close> is
  true at \<^verbatim>\<open>niter == 0\<close>, so the schema of the output file is always created during
  iteration 0, before any append can occur: what a run that starts at \<^verbatim>\<open>niter == 0\<close>
  does to the output target is nothing, or one creation followed by appends only, and it is
  not nothing when the first pass completes.
\<close>

theorem outfile_created_in_iteration_zero:
  assumes out: "outfile s = Some f"
    and ts: "0 < timestep s"
    and we: "(\<exists>w. writeevery s = PyInt w \<and> 0 < w) \<or> (\<exists>w. writeevery s = PyFloat w \<and> 0 < w)"
    and n0: "niter s = 0"
  shows "check_if_write s = Inr True
    \<and> (\<forall>t. iteration M s = Inr t \<longrightarrow>
          (\<exists>x. output_target t = output_target s @ [x] \<and> is_create x))
    \<and> (\<exists>ops. output_target (state_after (run M s)) = output_target s @ ops
          \<and> created_before_appended ops
          \<and> (\<forall>s0 t. set_surface_pressure s = Inr s0 \<and> niter s < max_iterations s
                 \<and> iteration M s0 = Inr t \<longrightarrow> ops \<noteq> []))"
proof -
  have check: "check_if_write s = Inr True"
    using out ts n0 we by (rule check_if_write_at_zero)
  have pass: "\<forall>t. iteration M s = Inr t \<longrightarrow>
          (\<exists>x. output_target t = output_target s @ [x] \<and> is_create x)"
    using n0 out ts we by (blast intro: iteration_creates_at_zero)
  have whole: "\<exists>ops. output_target (state_after (run M s)) = output_target s @ ops
          \<and> created_before_appended ops
          \<and> (\<forall>s0 t. set_surface_pressure s = Inr s0 \<and> niter s < max_iterations s
                 \<and> iteration M s0 = Inr t \<longrightarrow> ops \<noteq> [])"
  proof (cases "phlev (atmosphere s)")
    case Nil
    then have "run M s = Inl (IndexError, s)" "set_surface_pressure s = Inl (IndexError, s)"
      by (simp_all add: run_def set_surface_pressure_def)
    then show ?thesis
      by (intro exI [of _ "[]"]) (simp add: state_after_def created_before_appended_def)
  next
    case (Cons p ps)
    let ?u = "s\<lparr>surface := (surface s)\<lparr>pressure := p\<rparr>\<rparr>"
    have set: "set_surface_pressure s = Inr ?u"
      by (simp add: set_surface_pressure_def Cons)
    have run: "run M s = run_loop M ?u"
      by (simp add: run_def set)
    have u: "outfile ?u = Some f" "0 < timestep ?u" "niter ?u = 0"
      "(\<exists>w. writeevery ?u = PyInt w \<and> 0 < w) \<or> (\<exists>w. writeevery ?u = PyFloat w \<and> 0 < w)"
      "output_target ?u = output_target s"
      using out ts n0 we by simp_all
    show ?thesis
    proof (cases "niter s < max_iterations s")
      case False
      then have "run M s = Inr ?u"
        by (simp add: run run_loop.simps [of M ?u])
      with False show ?thesis
        by (intro exI [of _ "[]"]) (simp add: state_after_def created_before_appended_def)
    next
      case lt: True
      then have ltu: "niter ?u < max_iterations ?u" by simp
      show ?thesis
      proof (cases "iteration M ?u")
        case (Inl e)
        then have r: "run M s = Inl e"
          using ltu by (simp add: run run_loop.simps [of M ?u])
        from iteration_output [of M ?u] Inl u(3,5)
        obtain ops where ops: "output_target (state_after (Inl e)) = output_target s @ ops"
          "ops = [] \<or> (\<exists>x. ops = [x] \<and> is_create x)"
          by auto
        from ops(2) have "created_before_appended ops"
          by (auto simp: created_before_appended_def)
        with ops(1) r set Inl show ?thesis
          by (intro exI [of _ ops]) simp
      next
        case (Inr t)
        from iteration_creates_at_zero [OF Inr u(3) u(1) u(2) u(4)] u(5)
        obtain x where x: "output_target t = output_target s @ [x]" "is_create x"
          by auto
        show ?thesis
        proof (cases "is_converged t")
          case True
          then have "run M s = Inr t"
            using ltu Inr by (simp add: run run_loop.simps [of M ?u])
          with x show ?thesis
            by (intro exI [of _ "[x]"]) (simp add: state_after_def created_before_appended_def)
        next
          case False
          let ?v = "t\<lparr>niter := niter t + 1\<rparr>"
          have r: "run M s = run_loop M ?v"
            using ltu Inr False by (simp add: run run_loop.simps [of M ?u])
          have "0 < niter ?v"
            using iteration_frame_Inr(1) [OF Inr] u(3) by simp
          from run_loop_appends_only [OF this, of M]
          obtain more where more:
            "output_target (state_after (run_loop M ?v)) = output_target ?v @ more"
            "list_all (\<lambda>y. \<not> is_create y) more"
            by blast
          with x r show ?thesis
            by (intro exI [of _ "x # more"]) (simp add: created_before_appended_def)
        qed
      qed
    qed
  qed
  from check pass whole show ?thesis by blast
qed

theorem outfile_created_in_iteration_zero_witness:
  "check_if_write (test_rce\<lparr>outfile := Some ''out.nc'', writeevery := PyFloat 2.5\<rparr>) = Inr True
   \<and> check_if_write (test_rce\<lparr>outfile := Some ''out.nc''\<rparr>) = Inr True
   \<and> (\<exists>x rest. output_target (state_after (run (noop_submodels 1)
          (test_rce\<lparr>outfile := Some ''out.nc'', max_iterations := 3\<rparr>))) = x # rest
        \<and> is_create x \<and> list_all (\<lambda>y. \<not> is_create y) rest \<and> length rest = 2)"
proof -
  let ?a = "test_rce\<lparr>outfile := Some ''out.nc'', writeevery := PyFloat 2.5\<rparr>"
  let ?b = "test_rce\<lparr>outfile := Some ''out.nc''\<rparr>"
  let ?c = "test_rce\<lparr>outfile := Some ''out.nc'', max_iterations := 3\<rparr>"
  let ?M = "noop_submodels 1
    :: (unit, unit, unit, (profile \<times> profile) list, unit, unit) submodels"
  have "writeevery ?a = PyFloat (5 / 2) \<and> (0::real) < 5 / 2"
    by (simp add: test_rce_def)
  then have a4:
    "(\<exists>w. writeevery ?a = PyInt w \<and> 0 < w) \<or> (\<exists>w. writeevery ?a = PyFloat w \<and> 0 < w)"
    by blast
  have a: "outfile ?a = Some ''out.nc''" "0 < timestep ?a" "niter ?a = 0"
    by (simp_all add: test_rce_def)
  have b: "outfile ?b = Some ''out.nc''" "0 < timestep ?b" "niter ?b = 0"
    "(\<exists>w. writeevery ?b = PyInt w \<and> 0 < w) \<or> (\<exists>w. writeevery ?b = PyFloat w \<and> 0 < w)"
    by (simp_all add: test_rce_def)
  have c: "outfile ?c = Some ''out.nc''" "0 < timestep ?c" "niter ?c = 0"
    "(\<exists>w. writeevery ?c = PyInt w \<and> 0 < w) \<or> (\<exists>w. writeevery ?c = PyFloat w \<and> 0 < w)"
    by (simp_all add: test_rce_def)
  have len: "length (output_target (state_after (run ?M ?c))) = 3"
    "output_target ?c = []"
    by (simp_all add: run_eval run_loop.simps numeral_2_eq_2)
  have ca: "check_if_write ?a = Inr True"
    using outfile_created_in_iteration_zero [OF a(1) a(2) a4 a(3), of ?M] by blast
  have cb: "check_if_write ?b = Inr True"
    using outfile_created_in_iteration_zero [OF b(1) b(2) b(4) b(3), of ?M] by blast
  from outfile_created_in_iteration_zero [OF c(1) c(2) c(4) c(3), of ?M]
  obtain ops where ops: "output_target (state_after (run ?M ?c)) = output_target ?c @ ops"
    "created_before_appended ops"
    by blast
  from ops(1) len have l3: "length ops = 3" and eq: "output_target (state_after (run ?M ?c)) = ops"
    by simp_all
  from l3 obtain x rest where xr: "ops = x # rest" "length rest = 2"
    by (cases ops) auto
  with ops(2) have "is_create x \<and> list_all (\<lambda>y. \<not> is_create y) rest"
    by (simp add: created_before_appended_def)
  with xr eq ca cb show ?thesis by blast
qed


end
